theory Spec2Isabelle
  imports Main "HOL-Library.Sublist" "HOL-Library.AList"
begin

section \<open>Metadata merge before comparison (pkg/component/util.go)\<close>

text \<open>
  \<^verbatim>\<open>addKubernetesData\<close> walks the live map and copies entries whose key matches one of
  three wildcard patterns into the source (desired) map, unless the key is already there.
  The matcher it calls, \<^verbatim>\<open>glob.MatchStringInList\<close>, belongs to the Argo CD utility
  library. The patterns used here consist of literal characters and \<^verbatim>\<open>*\<close> only;
  \<^verbatim>\<open>*\<close> stands for any run of characters, since no separator is configured.
\<close>

fun glob_match :: "string \<Rightarrow> string \<Rightarrow> bool" where
  "glob_match [] s = (s = [])"
| "glob_match (p # ps) [] = (p = CHR ''*'' \<and> glob_match ps [])"
| "glob_match (p # ps) (c # cs) =
     (if p = CHR ''*'' then glob_match ps (c # cs) \<or> glob_match (p # ps) cs
      else p = c \<and> glob_match ps cs)"

definition MatchStringInList :: "string list \<Rightarrow> string \<Rightarrow> bool" where
  "MatchStringInList list item = list_ex (\<lambda>pat. glob_match pat item) list"

definition patterns :: "string list" where
  "patterns = [''*kubernetes.io*'', ''*k8s.io*'', ''*openshift.io*'']"

text \<open>
  A Go map is either nil or a table. Reading a nil map finds nothing; writing to it panics.
  The live map is ranged over in an order Go leaves open, so it is given as the list of its
  entries in the order the loop visits them (distinct keys).
\<close>

datatype panic = NilMapWrite

type_synonym gomap = "(string \<rightharpoonup> string) option"

fun addKubernetesData :: "gomap \<Rightarrow> (string \<times> string) list \<Rightarrow> panic + gomap" where
  "addKubernetesData source [] = Inr source"
| "addKubernetesData source ((key, val) # live) =
     (if MatchStringInList patterns key then
        (case source of
           None \<Rightarrow> Inl NilMapWrite
         | Some m \<Rightarrow>
             (case m key of
                Some _ \<Rightarrow> addKubernetesData source live
              | None \<Rightarrow> addKubernetesData (Some (m(key \<mapsto> val))) live))
      else addKubernetesData source live)"

text \<open>The reserved names, and the two readings of "matches": as a prefix of the key,
  and anywhere inside the key.\<close>

definition reserved_names :: "string list" where
  "reserved_names = [''kubernetes.io'', ''k8s.io'', ''openshift.io'']"

definition has_reserved_prefix :: "string \<Rightarrow> bool" where
  "has_reserved_prefix key = list_ex (\<lambda>p. prefix p key) reserved_names"

definition contains_reserved :: "string \<Rightarrow> bool" where
  "contains_reserved key = list_ex (\<lambda>p. sublist p key) reserved_names"

section \<open>Merging command arguments (pkg/component/util.go)\<close>

text \<open>
  \<^verbatim>\<open>appendUniqueArgs\<close> keeps four variables while it scans the two lists: the maps
  \<^verbatim>\<open>existing\<close>, \<^verbatim>\<open>repeated\<close> and \<^verbatim>\<open>nonRepeatableFlags\<close>, and the slice
  \<^verbatim>\<open>result\<close>. The inner maps of \<^verbatim>\<open>repeated\<close> only ever store \<^verbatim>\<open>true\<close>, so each is
  the set of its keys; a missing outer key is the nil inner map.
\<close>

record args_state =
  existing :: "string \<rightharpoonup> string"
  repeated :: "string \<rightharpoonup> string set"
  nonRepeatableFlags :: "string set"
  result :: "string list"



text \<open>The closure \<^verbatim>\<open>add\<close>: the flag, then its value unless the value is empty.\<close>

definition add :: "string \<Rightarrow> string \<Rightarrow> args_state \<Rightarrow> args_state" where
  "add flag val st = st\<lparr>result := result st @ [flag] @ (if val \<noteq> '''' then [val] else [])\<rparr>"









text \<open>Invariants of the two scanning loops, used in the proofs below.\<close>




section \<open>Update decision for the Redis Deployment (controllers/shared/redis.go)\<close>

text \<open>
  Only the fields that \<^verbatim>\<open>ReconcileRedisDeployment\<close> reads are kept. Fields that the code
  merely compares with \<^verbatim>\<open>reflect.DeepEqual\<close> and copies (node selector, tolerations,
  environment, resources, security contexts) are values of an arbitrary type \<open>'v\<close>.
  The template labels are a Go map, which may be nil.
\<close>

record 'v Container =
  Image :: string
  ImagePullPolicy :: string
  Args :: "string list"
  Env :: 'v
  Resources :: 'v
  SecurityContext :: 'v

record 'v Deployment =
  Containers :: "'v Container list"
  NodeSelector :: 'v
  Tolerations :: 'v
  PodSecurityContext :: 'v
  ServiceAccountName :: string
  TemplateLabels :: "(string \<rightharpoonup> string) option"

datatype go_panic = IndexOutOfRange | AssignToNilMap

definition getImagePullPolicy :: "string \<Rightarrow> string" where
  "getImagePullPolicy policy = (if policy = '''' then ''Always'' else policy)"

text \<open>The variables \<^verbatim>\<open>existingDeploy\<close>, \<^verbatim>\<open>changed\<close> and \<^verbatim>\<open>explanation\<close>.\<close>

record 'v diff_state =
  obj :: "'v Deployment"
  changed :: bool
  explanation :: string

text \<open>The recurring tail of every comparison:
  \<^verbatim>\<open>if changed { explanation += ", " }; explanation += name; changed = true\<close>.\<close>

definition note_change :: "string \<Rightarrow> 'v diff_state \<Rightarrow> 'v diff_state" where
  "note_change name st =
     st\<lparr>explanation := (if changed st then explanation st @ '', '' else explanation st) @ name,
        changed := True\<rparr>"

definition set_container0 ::
  "('v Container \<Rightarrow> 'v Container) \<Rightarrow> 'v diff_state \<Rightarrow> 'v diff_state" where
  "set_container0 upd st =
     st\<lparr>obj := (obj st)\<lparr>Containers :=
        (case Containers (obj st) of [] \<Rightarrow> [] | c # cs \<Rightarrow> upd c # cs)\<rparr>\<rparr>"

text \<open>Reading \<^verbatim>\<open>Containers[0]\<close> once the slice is known to be non-empty; \<open>c0\<close> is the
  element found when the block was entered.\<close>

definition container0 :: "'v Container \<Rightarrow> 'v diff_state \<Rightarrow> 'v Container" where
  "container0 c0 st = (case Containers (obj st) of [] \<Rightarrow> c0 | c # _ \<Rightarrow> c)"

definition updateNodePlacementForDeployment ::
  "'v Deployment \<Rightarrow> 'v diff_state \<Rightarrow> 'v diff_state" where
  "updateNodePlacementForDeployment deploy st =
     (let st1 = (if NodeSelector (obj st) \<noteq> NodeSelector deploy
                 then note_change ''node selector''
                        (st\<lparr>obj := (obj st)\<lparr>NodeSelector := NodeSelector deploy\<rparr>\<rparr>)
                 else st)
      in if Tolerations (obj st1) \<noteq> Tolerations deploy
         then note_change ''tolerations''
                (st1\<lparr>obj := (obj st1)\<lparr>Tolerations := Tolerations deploy\<rparr>\<rparr>)
         else st1)"

text \<open>The comparisons of the block "Check if update is needed", one function of the
  state per \<^verbatim>\<open>if\<close> statement, in source order. \<open>c0\<close> and \<open>d0\<close> are the first
  container of the live and of the desired object; \<^verbatim>\<open>actualImage\<close> and
  \<^verbatim>\<open>actualImagePullPolicy\<close> are read from \<open>c0\<close> when the block is entered. \<^verbatim>\<open>now\<close> is
  the formatted \<^verbatim>\<open>time.Now()\<close>.\<close>

definition compare_image :: "string \<Rightarrow> string \<Rightarrow> 'v Container \<Rightarrow> 'v diff_state \<Rightarrow> 'v diff_state" where
  "compare_image now desiredImage c0 st =
     (if Image c0 \<noteq> desiredImage
      then (set_container0 (\<lambda>c. c\<lparr>Image := desiredImage\<rparr>) st)
             \<lparr>obj := (obj (set_container0 (\<lambda>c. c\<lparr>Image := desiredImage\<rparr>) st))
                \<lparr>TemplateLabels := map_option (\<lambda>m. m(''image.upgraded'' \<mapsto> now))
                    (TemplateLabels (obj st))\<rparr>,
              explanation := ''container image'',
              changed := True\<rparr>
      else st)"

definition compare_pull_policy :: "string \<Rightarrow> 'v Container \<Rightarrow> 'v diff_state \<Rightarrow> 'v diff_state" where
  "compare_pull_policy desiredImagePullPolicy c0 st =
     (if ImagePullPolicy c0 \<noteq> desiredImagePullPolicy
      then note_change ''image pull policy''
             (set_container0 (\<lambda>c. c\<lparr>ImagePullPolicy := desiredImagePullPolicy\<rparr>) st)
      else st)"

definition compare_args :: "'v Container \<Rightarrow> 'v Container \<Rightarrow> 'v diff_state \<Rightarrow> 'v diff_state" where
  "compare_args c0 d0 st =
     (if Args d0 \<noteq> Args (container0 c0 st)
      then note_change ''container args'' (set_container0 (\<lambda>c. c\<lparr>Args := Args d0\<rparr>) st)
      else st)"

definition compare_env :: "'v Container \<Rightarrow> 'v Container \<Rightarrow> 'v diff_state \<Rightarrow> 'v diff_state" where
  "compare_env c0 d0 st =
     (if Env (container0 c0 st) \<noteq> Env d0
      then note_change ''container env'' (set_container0 (\<lambda>c. c\<lparr>Env := Env d0\<rparr>) st)
      else st)"

definition compare_resources :: "'v Container \<Rightarrow> 'v Container \<Rightarrow> 'v diff_state \<Rightarrow> 'v diff_state" where
  "compare_resources c0 d0 st =
     (if Resources d0 \<noteq> Resources (container0 c0 st)
      then note_change ''container resources''
             (set_container0 (\<lambda>c. c\<lparr>Resources := Resources d0\<rparr>) st)
      else st)"

definition compare_security_context ::
  "'v Container \<Rightarrow> 'v Container \<Rightarrow> 'v diff_state \<Rightarrow> 'v diff_state" where
  "compare_security_context c0 d0 st =
     (if SecurityContext d0 \<noteq> SecurityContext (container0 c0 st)
      then note_change ''container security context''
             (set_container0 (\<lambda>c. c\<lparr>SecurityContext := SecurityContext d0\<rparr>) st)
      else st)"

definition compare_pod_security_context :: "'v Deployment \<Rightarrow> 'v diff_state \<Rightarrow> 'v diff_state" where
  "compare_pod_security_context deploy st =
     (if PodSecurityContext deploy \<noteq> PodSecurityContext (obj st)
      then note_change ''pod security context''
             (st\<lparr>obj := (obj st)\<lparr>PodSecurityContext := PodSecurityContext deploy\<rparr>\<rparr>)
      else st)"

definition compare_service_account :: "'v Deployment \<Rightarrow> 'v diff_state \<Rightarrow> 'v diff_state" where
  "compare_service_account deploy st =
     (if ServiceAccountName deploy \<noteq> ServiceAccountName (obj st)
      then note_change ''serviceAccountName''
             (st\<lparr>obj := (obj st)\<lparr>ServiceAccountName := ServiceAccountName deploy\<rparr>\<rparr>)
      else st)"

text \<open>The whole block, up to the test of \<^verbatim>\<open>changed\<close>. Indexing \<^verbatim>\<open>Containers[0]\<close> of an
  empty slice panics, and so does writing the upgrade label into a nil label map.\<close>

definition redis_deployment_diff ::
  "string \<Rightarrow> string \<Rightarrow> string \<Rightarrow> 'v Deployment \<Rightarrow> 'v Deployment \<Rightarrow> go_panic + 'v diff_state" where
  "redis_deployment_diff now redisImage imagePullPolicy existingDeploy deploy =
     (case Containers existingDeploy of
        [] \<Rightarrow> Inl IndexOutOfRange
      | c0 # _ \<Rightarrow>
        (case Containers deploy of
           [] \<Rightarrow> Inl IndexOutOfRange
         | d0 # _ \<Rightarrow>
             if Image c0 \<noteq> redisImage \<and> TemplateLabels existingDeploy = None
             then Inl AssignToNilMap
             else Inr
               (compare_service_account deploy
               (compare_pod_security_context deploy
               (compare_security_context c0 d0
               (compare_resources c0 d0
               (compare_env c0 d0
               (compare_args c0 d0
               (updateNodePlacementForDeployment deploy
               (compare_pull_policy (getImagePullPolicy imagePullPolicy) c0
               (compare_image now redisImage c0
                  \<lparr>obj = existingDeploy, changed = False, explanation = ''''\<rparr>)))))))))))"

text \<open>The calls the function issues on the client, and what it returns. The log lines
  written by \<^verbatim>\<open>argoutil.LogResourceUpdate\<close> carry the explanation.\<close>

datatype 'v client_call =
    ClientCreate "'v Deployment"
  | ClientUpdate "'v Deployment"
  | ClientDelete "'v Deployment"

record 'v reconcile_result =
  calls_made :: "'v client_call list"
  update_log :: "string list"
  returned :: "string option"

text \<open>
  \<^verbatim>\<open>ReconcileRedisDeployment\<close> from the lookup of the existing Deployment on. The desired
  object \<^verbatim>\<open>deploy\<close>, the outcome \<^verbatim>\<open>found\<close> of the lookup, the Redis image and the three
  switches read from the instance spec are inputs; \<^verbatim>\<open>client_err\<close> is the error (or none)
  that the client returns for the one call issued.
\<close>

definition ReconcileRedisDeployment ::
  "bool \<Rightarrow> bool \<Rightarrow> bool \<Rightarrow> string \<Rightarrow> string \<Rightarrow> string \<Rightarrow> string option \<Rightarrow>
   'v Deployment \<Rightarrow> 'v Deployment option \<Rightarrow> go_panic + 'v reconcile_result" where
  "ReconcileRedisDeployment redisEnabled redisRemote haEnabled now redisImage imagePullPolicy
       client_err deploy found =
     (case found of
        Some existingDeploy \<Rightarrow>
          if \<not> redisEnabled then
            Inr \<lparr>calls_made = [ClientDelete deploy], update_log = [], returned = client_err\<rparr>
          else if redisRemote then
            Inr \<lparr>calls_made = [ClientDelete deploy], update_log = [], returned = client_err\<rparr>
          else if haEnabled then
            Inr \<lparr>calls_made = [ClientDelete deploy], update_log = [], returned = client_err\<rparr>
          else
            (case redis_deployment_diff now redisImage imagePullPolicy existingDeploy deploy of
               Inl p \<Rightarrow> Inl p
             | Inr st \<Rightarrow>
                 if changed st then
                   Inr \<lparr>calls_made = [ClientUpdate (obj st)], update_log = [explanation st],
                        returned = client_err\<rparr>
                 else Inr \<lparr>calls_made = [], update_log = [], returned = None\<rparr>)
      | None \<Rightarrow>
          if redisEnabled \<and> redisRemote then
            Inr \<lparr>calls_made = [], update_log = [], returned = None\<rparr>
          else if \<not> redisEnabled then
            Inr \<lparr>calls_made = [], update_log = [], returned = None\<rparr>
          else if haEnabled then
            Inr \<lparr>calls_made = [], update_log = [], returned = None\<rparr>
          else Inr \<lparr>calls_made = [ClientCreate deploy], update_log = [], returned = client_err\<rparr>)"

text \<open>The claim's side: the names of the operator-managed fields in which the live
  object differs from the desired one, in the order of the comparisons, and their
  comma-joined list.\<close>

fun join :: "string \<Rightarrow> string list \<Rightarrow> string" where
  "join sep [] = []"
| "join sep [x] = x"
| "join sep (x # y # ys) = x @ sep @ join sep (y # ys)"

definition named_if :: "bool \<Rightarrow> string \<Rightarrow> string list" where
  "named_if b name = (if b then [name] else [])"

definition changed_fields ::
  "string \<Rightarrow> string \<Rightarrow> 'v Deployment \<Rightarrow> 'v Deployment \<Rightarrow> string list" where
  "changed_fields redisImage imagePullPolicy existingDeploy deploy =
     (case (Containers existingDeploy, Containers deploy) of
        (c0 # _, d0 # _) \<Rightarrow>
          named_if (Image c0 \<noteq> redisImage) ''container image''
        @ named_if (ImagePullPolicy c0 \<noteq> getImagePullPolicy imagePullPolicy) ''image pull policy''
        @ named_if (NodeSelector existingDeploy \<noteq> NodeSelector deploy) ''node selector''
        @ named_if (Tolerations existingDeploy \<noteq> Tolerations deploy) ''tolerations''
        @ named_if (Args c0 \<noteq> Args d0) ''container args''
        @ named_if (Env c0 \<noteq> Env d0) ''container env''
        @ named_if (Resources c0 \<noteq> Resources d0) ''container resources''
        @ named_if (SecurityContext c0 \<noteq> SecurityContext d0) ''container security context''
        @ named_if (PodSecurityContext existingDeploy \<noteq> PodSecurityContext deploy) ''pod security context''
        @ named_if (ServiceAccountName existingDeploy \<noteq> ServiceAccountName deploy) ''serviceAccountName''
      | _ \<Rightarrow> [])"

text \<open>Two invariants of the comparison block, used in the proofs below: the flag and the
  explanation account for the field names noted so far, and the fields compared from
  step \<open>k\<close> on still hold what the live object held on entry.\<close>

definition tracks :: "'v diff_state \<Rightarrow> string list \<Rightarrow> bool" where
  "tracks st fs \<longleftrightarrow> changed st = (fs \<noteq> []) \<and> explanation st = join '', '' fs"

definition fields_kept :: "nat \<Rightarrow> 'v Container \<Rightarrow> 'v Deployment \<Rightarrow> 'v diff_state \<Rightarrow> bool" where
  "fields_kept k c0 e st \<longleftrightarrow>
       Containers (obj st) \<noteq> []
     \<and> (k \<le> 2 \<longrightarrow> ImagePullPolicy (container0 c0 st) = ImagePullPolicy c0)
     \<and> (k \<le> 3 \<longrightarrow> NodeSelector (obj st) = NodeSelector e)
     \<and> (k \<le> 4 \<longrightarrow> Tolerations (obj st) = Tolerations e)
     \<and> (k \<le> 5 \<longrightarrow> Args (container0 c0 st) = Args c0)
     \<and> (k \<le> 6 \<longrightarrow> Env (container0 c0 st) = Env c0)
     \<and> (k \<le> 7 \<longrightarrow> Resources (container0 c0 st) = Resources c0)
     \<and> (k \<le> 8 \<longrightarrow> SecurityContext (container0 c0 st) = SecurityContext c0)
     \<and> (k \<le> 9 \<longrightarrow> PodSecurityContext (obj st) = PodSecurityContext e)
     \<and> (k \<le> 10 \<longrightarrow> ServiceAccountName (obj st) = ServiceAccountName e)"

text \<open>The object that a single update has to carry: the live object with every
  operator-managed field set to its desired value (and the upgrade label written when the
  image changed).\<close>

definition applied_changes ::
  "string \<Rightarrow> string \<Rightarrow> string \<Rightarrow> 'v Deployment \<Rightarrow> 'v Deployment \<Rightarrow> 'v Deployment" where
  "applied_changes now redisImage imagePullPolicy existingDeploy deploy =
     (case (Containers existingDeploy, Containers deploy) of
        (c0 # cs, d0 # _) \<Rightarrow>
          existingDeploy
            \<lparr>Containers :=
               c0\<lparr>Image := redisImage,
                  ImagePullPolicy := getImagePullPolicy imagePullPolicy,
                  Args := Args d0, Env := Env d0, Resources := Resources d0,
                  SecurityContext := SecurityContext d0\<rparr> # cs,
             NodeSelector := NodeSelector deploy,
             Tolerations := Tolerations deploy,
             PodSecurityContext := PodSecurityContext deploy,
             ServiceAccountName := ServiceAccountName deploy,
             TemplateLabels :=
               (if Image c0 \<noteq> redisImage
                then map_option (\<lambda>m. m(''image.upgraded'' \<mapsto> now)) (TemplateLabels existingDeploy)
                else TemplateLabels existingDeploy)\<rparr>
      | _ \<Rightarrow> existingDeploy)"

section \<open>The ClusterArgoCD controller (controllers/clusterargocd)\<close>

subsection \<open>Objects of the cluster\<close>

text \<open>
  Labels and annotations are Go maps from strings to strings, kept as association lists
  with distinct keys; reading a missing key gives the empty string. A nil label map and
  an empty one behave alike in the code modelled here (the code allocates a map before it
  writes), so both are the empty list.
\<close>

type_synonym labels = "(string \<times> string) list"

definition label_value :: "labels \<Rightarrow> string \<Rightarrow> string" where
  "label_value ls k = (case map_of ls k of None \<Rightarrow> '''' | Some v \<Rightarrow> v)"

text \<open>The constants of package \<^verbatim>\<open>common\<close> that the controller uses. The package is not
  part of the sources at hand, so its constants are a parameter of every function below.\<close>

record common =
  ArgoCDManagedByClusterArgoCDLabel :: string
  ArgoCDApplicationSetManagedByClusterArgoCDLabel :: string
  ArgoCDNotificationsManagedByClusterArgoCDLabel :: string
  ArgoCDKeyName :: string
  ArgoCDKeyPartOf :: string
  ArgoCDKeyManagedBy :: string
  ArgoCDAppName :: string
  ArgoCDApplicationControllerComponent :: string
  ArgoCDServerComponent :: string
  ArgoCDApplicationSetControllerComponent :: string

record Namespace =
  ns_name :: string
  ns_labels :: labels

record PolicyRule =
  APIGroups :: "string list"
  RuleResources :: "string list"
  Verbs :: "string list"

record Role =
  role_name :: string
  role_namespace :: string
  role_labels :: labels
  role_rules :: "PolicyRule list"

record ClusterRole =
  cr_name :: string
  cr_labels :: labels
  cr_annotations :: labels
  cr_rules :: "PolicyRule list"

record RoleRef =
  ref_apiGroup :: string
  ref_kind :: string
  ref_name :: string

record Subject =
  subj_kind :: string
  subj_name :: string
  subj_namespace :: string

record ClusterRoleBinding =
  crb_name :: string
  crb_labels :: labels
  crb_annotations :: labels
  crb_roleRef :: RoleRef
  crb_subjects :: "Subject list"

record ServiceAccount =
  sa_name :: string
  sa_namespace :: string
  sa_labels :: labels
  sa_annotations :: labels

record ArgoCDApplicationSet =
  appset_Enabled :: "bool option"
  appset_SourceNamespaces :: "string list"

record ArgoCDNotifications =
  notif_Enabled :: bool
  notif_SourceNamespaces :: "string list"

record ClusterArgoCDSpec =
  ControlPlaneNamespace :: string
  SourceNamespaces :: "string list"
  ApplicationSet :: "ArgoCDApplicationSet option"
  Notifications :: ArgoCDNotifications
  ArgoCDAgent :: "unit option"
  HA_Enabled :: bool

record ArgoCDStatus =
  Phase :: string
  RepoTLSChecksum :: string
  RedisTLSChecksum :: string

record ClusterArgoCD =
  Name :: string
  Labels :: labels
  DeletionTimestamp :: "string option"
  Finalizers :: "string list"
  Spec :: ClusterArgoCDSpec
  Status :: ArgoCDStatus

definition ArgoCDDeletionFinalizer :: string where
  "ArgoCDDeletionFinalizer = ''argoproj.io/finalizer''"

definition IsDeletionFinalizerPresent :: "ClusterArgoCD \<Rightarrow> bool" where
  "IsDeletionFinalizerPresent clusterArgoCD \<longleftrightarrow>
     ''argoproj.io/finalizer'' \<in> set (Finalizers clusterArgoCD)"

subsection \<open>The object store and the client\<close>

text \<open>
  The store holds the objects by kind. The reconciler's state is the store, the in-memory
  maps of the \<^verbatim>\<open>ReconcileClusterArgoCD\<close> struct, the token-renewal timer map of
  \<^verbatim>\<open>LocalUsers\<close> (absent when \<^verbatim>\<open>LocalUsers\<close> or the map is nil), and the trace of
  what was done so far, in program order: every client call, and the point where the
  timer map is cleaned.
\<close>

record cluster =
  namespaces :: "Namespace list"
  roles :: "Role list"
  clusterRoles :: "ClusterRole list"
  clusterRoleBindings :: "ClusterRoleBinding list"
  serviceAccounts :: "ServiceAccount list"
  clusterArgoCDs :: "ClusterArgoCD list"

datatype verb = VGet | VList | VCreate | VUpdate | VDelete

datatype kind =
  KNamespace | KRole | KClusterRole | KClusterRoleBinding | KServiceAccount | KClusterArgoCD

datatype event =
    Call verb kind string string
  | TimersCleanup string

record world =
  store :: cluster
  trace :: "event list"
  ManagedSourceNamespaces :: "string \<rightharpoonup> string"
  ManagedApplicationSetSourceNamespaces :: "string \<rightharpoonup> string"
  ManagedNotificationsSourceNamespaces :: "string \<rightharpoonup> string"
  TokenRenewalTimers :: "(string \<times> nat) list option"

text \<open>
  Errors. A client call fails with \<^verbatim>\<open>NotFound\<close> or \<^verbatim>\<open>AlreadyExists\<close> as the store
  dictates, or with some other error when the environment says so: the parameter
  \<open>flt\<close> of every function tells, for the position of a call in the trace, whether that
  call fails. The texts that \<^verbatim>\<open>fmt.Errorf\<close> wraps around an error are not kept.
\<close>

datatype error =
    NotFound
  | AlreadyExists
  | ClientError nat
  | LabelSelectorParseError
  | LabelSelectorMismatch

definition IsNotFound :: "error \<Rightarrow> bool" where
  "IsNotFound e \<longleftrightarrow> e = NotFound"

definition client_get ::
  "(nat \<Rightarrow> bool) \<Rightarrow> kind \<Rightarrow> string \<Rightarrow> string \<Rightarrow> (cluster \<Rightarrow> 'a option) \<Rightarrow> world
     \<Rightarrow> (error + 'a) \<times> world" where
  "client_get flt k ns name find_obj w =
     (let i = length (trace w); w1 = w\<lparr>trace := trace w @ [Call VGet k ns name]\<rparr> in
      if flt i then (Inl (ClientError i), w1)
      else case find_obj (store w) of
             None \<Rightarrow> (Inl NotFound, w1)
           | Some x \<Rightarrow> (Inr x, w1))"

definition client_list ::
  "(nat \<Rightarrow> bool) \<Rightarrow> kind \<Rightarrow> string \<Rightarrow> string \<Rightarrow> (cluster \<Rightarrow> 'a list) \<Rightarrow> world
     \<Rightarrow> (error + 'a list) \<times> world" where
  "client_list flt k key val select w =
     (let i = length (trace w); w1 = w\<lparr>trace := trace w @ [Call VList k key val]\<rparr> in
      if flt i then (Inl (ClientError i), w1) else (Inr (select (store w)), w1))"

definition client_write ::
  "(nat \<Rightarrow> bool) \<Rightarrow> verb \<Rightarrow> kind \<Rightarrow> string \<Rightarrow> string \<Rightarrow> (cluster \<Rightarrow> error + cluster) \<Rightarrow> world
     \<Rightarrow> error option \<times> world" where
  "client_write flt v k ns name change w =
     (let i = length (trace w); w1 = w\<lparr>trace := trace w @ [Call v k ns name]\<rparr> in
      if flt i then (Some (ClientError i), w1)
      else case change (store w) of
             Inl e \<Rightarrow> (Some e, w1)
           | Inr c \<Rightarrow> (None, w1\<lparr>store := c\<rparr>))"

text \<open>What Create, Update and Delete do to a list of objects with a key.\<close>

definition created :: "('a \<Rightarrow> 'k) \<Rightarrow> 'a \<Rightarrow> 'a list \<Rightarrow> error + 'a list" where
  "created key x xs = (if key x \<in> key ` set xs then Inl AlreadyExists else Inr (xs @ [x]))"

definition updated :: "('a \<Rightarrow> 'k) \<Rightarrow> 'a \<Rightarrow> 'a list \<Rightarrow> error + 'a list" where
  "updated key x xs =
     (if key x \<in> key ` set xs then Inr (map (\<lambda>y. if key y = key x then x else y) xs)
      else Inl NotFound)"

definition deleted :: "('a \<Rightarrow> 'k) \<Rightarrow> 'k \<Rightarrow> 'a list \<Rightarrow> error + 'a list" where
  "deleted key k xs =
     (if k \<in> key ` set xs then Inr (filter (\<lambda>y. key y \<noteq> k) xs) else Inl NotFound)"

definition has_label :: "string \<Rightarrow> string \<Rightarrow> labels \<Rightarrow> bool" where
  "has_label key val ls \<longleftrightarrow> map_of ls key = Some val"

definition role_key :: "Role \<Rightarrow> string \<times> string" where
  "role_key r = (role_namespace r, role_name r)"

definition sa_key :: "ServiceAccount \<Rightarrow> string \<times> string" where
  "sa_key s = (sa_namespace s, sa_name s)"

definition getNamespace :: "(nat \<Rightarrow> bool) \<Rightarrow> string \<Rightarrow> world \<Rightarrow> (error + Namespace) \<times> world" where
  "getNamespace flt name =
     client_get flt KNamespace '''' name (\<lambda>c. find (\<lambda>n. ns_name n = name) (namespaces c))"

definition updateNamespace :: "(nat \<Rightarrow> bool) \<Rightarrow> Namespace \<Rightarrow> world \<Rightarrow> error option \<times> world" where
  "updateNamespace flt ns =
     client_write flt VUpdate KNamespace '''' (ns_name ns)
       (\<lambda>c. map_sum id (\<lambda>xs. c\<lparr>namespaces := xs\<rparr>) (updated ns_name ns (namespaces c)))"

definition listNamespaces ::
  "(nat \<Rightarrow> bool) \<Rightarrow> string \<Rightarrow> string \<Rightarrow> world \<Rightarrow> (error + Namespace list) \<times> world" where
  "listNamespaces flt key val =
     client_list flt KNamespace key val (\<lambda>c. filter (\<lambda>n. has_label key val (ns_labels n)) (namespaces c))"

definition getRole :: "(nat \<Rightarrow> bool) \<Rightarrow> string \<Rightarrow> string \<Rightarrow> world \<Rightarrow> (error + Role) \<times> world" where
  "getRole flt ns name =
     client_get flt KRole ns name (\<lambda>c. find (\<lambda>r. role_key r = (ns, name)) (roles c))"

definition createRole :: "(nat \<Rightarrow> bool) \<Rightarrow> Role \<Rightarrow> world \<Rightarrow> error option \<times> world" where
  "createRole flt r =
     client_write flt VCreate KRole (role_namespace r) (role_name r)
       (\<lambda>c. map_sum id (\<lambda>xs. c\<lparr>roles := xs\<rparr>) (created role_key r (roles c)))"

definition updateRole :: "(nat \<Rightarrow> bool) \<Rightarrow> Role \<Rightarrow> world \<Rightarrow> error option \<times> world" where
  "updateRole flt r =
     client_write flt VUpdate KRole (role_namespace r) (role_name r)
       (\<lambda>c. map_sum id (\<lambda>xs. c\<lparr>roles := xs\<rparr>) (updated role_key r (roles c)))"

definition getClusterRole :: "(nat \<Rightarrow> bool) \<Rightarrow> string \<Rightarrow> world \<Rightarrow> (error + ClusterRole) \<times> world" where
  "getClusterRole flt name =
     client_get flt KClusterRole '''' name (\<lambda>c. find (\<lambda>r. cr_name r = name) (clusterRoles c))"

definition createClusterRole :: "(nat \<Rightarrow> bool) \<Rightarrow> ClusterRole \<Rightarrow> world \<Rightarrow> error option \<times> world" where
  "createClusterRole flt r =
     client_write flt VCreate KClusterRole '''' (cr_name r)
       (\<lambda>c. map_sum id (\<lambda>xs. c\<lparr>clusterRoles := xs\<rparr>) (created cr_name r (clusterRoles c)))"

definition updateClusterRole :: "(nat \<Rightarrow> bool) \<Rightarrow> ClusterRole \<Rightarrow> world \<Rightarrow> error option \<times> world" where
  "updateClusterRole flt r =
     client_write flt VUpdate KClusterRole '''' (cr_name r)
       (\<lambda>c. map_sum id (\<lambda>xs. c\<lparr>clusterRoles := xs\<rparr>) (updated cr_name r (clusterRoles c)))"

definition listClusterRoles ::
  "(nat \<Rightarrow> bool) \<Rightarrow> string \<Rightarrow> string \<Rightarrow> world \<Rightarrow> (error + ClusterRole list) \<times> world" where
  "listClusterRoles flt key val =
     client_list flt KClusterRole key val
       (\<lambda>c. filter (\<lambda>r. has_label key val (cr_labels r)) (clusterRoles c))"

definition deleteClusterRole :: "(nat \<Rightarrow> bool) \<Rightarrow> ClusterRole \<Rightarrow> world \<Rightarrow> error option \<times> world" where
  "deleteClusterRole flt r =
     client_write flt VDelete KClusterRole '''' (cr_name r)
       (\<lambda>c. map_sum id (\<lambda>xs. c\<lparr>clusterRoles := xs\<rparr>) (deleted cr_name (cr_name r) (clusterRoles c)))"

definition getClusterRoleBinding ::
  "(nat \<Rightarrow> bool) \<Rightarrow> string \<Rightarrow> world \<Rightarrow> (error + ClusterRoleBinding) \<times> world" where
  "getClusterRoleBinding flt name =
     client_get flt KClusterRoleBinding '''' name
       (\<lambda>c. find (\<lambda>r. crb_name r = name) (clusterRoleBindings c))"

definition createClusterRoleBinding ::
  "(nat \<Rightarrow> bool) \<Rightarrow> ClusterRoleBinding \<Rightarrow> world \<Rightarrow> error option \<times> world" where
  "createClusterRoleBinding flt r =
     client_write flt VCreate KClusterRoleBinding '''' (crb_name r)
       (\<lambda>c. map_sum id (\<lambda>xs. c\<lparr>clusterRoleBindings := xs\<rparr>)
              (created crb_name r (clusterRoleBindings c)))"

definition updateClusterRoleBinding ::
  "(nat \<Rightarrow> bool) \<Rightarrow> ClusterRoleBinding \<Rightarrow> world \<Rightarrow> error option \<times> world" where
  "updateClusterRoleBinding flt r =
     client_write flt VUpdate KClusterRoleBinding '''' (crb_name r)
       (\<lambda>c. map_sum id (\<lambda>xs. c\<lparr>clusterRoleBindings := xs\<rparr>)
              (updated crb_name r (clusterRoleBindings c)))"

definition listClusterRoleBindings ::
  "(nat \<Rightarrow> bool) \<Rightarrow> string \<Rightarrow> string \<Rightarrow> world \<Rightarrow> (error + ClusterRoleBinding list) \<times> world" where
  "listClusterRoleBindings flt key val =
     client_list flt KClusterRoleBinding key val
       (\<lambda>c. filter (\<lambda>r. has_label key val (crb_labels r)) (clusterRoleBindings c))"

definition deleteClusterRoleBinding ::
  "(nat \<Rightarrow> bool) \<Rightarrow> ClusterRoleBinding \<Rightarrow> world \<Rightarrow> error option \<times> world" where
  "deleteClusterRoleBinding flt r =
     client_write flt VDelete KClusterRoleBinding '''' (crb_name r)
       (\<lambda>c. map_sum id (\<lambda>xs. c\<lparr>clusterRoleBindings := xs\<rparr>)
              (deleted crb_name (crb_name r) (clusterRoleBindings c)))"

definition getServiceAccount ::
  "(nat \<Rightarrow> bool) \<Rightarrow> string \<Rightarrow> string \<Rightarrow> world \<Rightarrow> (error + ServiceAccount) \<times> world" where
  "getServiceAccount flt ns name =
     client_get flt KServiceAccount ns name (\<lambda>c. find (\<lambda>s. sa_key s = (ns, name)) (serviceAccounts c))"

definition createServiceAccount ::
  "(nat \<Rightarrow> bool) \<Rightarrow> ServiceAccount \<Rightarrow> world \<Rightarrow> error option \<times> world" where
  "createServiceAccount flt s =
     client_write flt VCreate KServiceAccount (sa_namespace s) (sa_name s)
       (\<lambda>c. map_sum id (\<lambda>xs. c\<lparr>serviceAccounts := xs\<rparr>) (created sa_key s (serviceAccounts c)))"

definition updateServiceAccount ::
  "(nat \<Rightarrow> bool) \<Rightarrow> ServiceAccount \<Rightarrow> world \<Rightarrow> error option \<times> world" where
  "updateServiceAccount flt s =
     client_write flt VUpdate KServiceAccount (sa_namespace s) (sa_name s)
       (\<lambda>c. map_sum id (\<lambda>xs. c\<lparr>serviceAccounts := xs\<rparr>) (updated sa_key s (serviceAccounts c)))"

definition getClusterArgoCD ::
  "(nat \<Rightarrow> bool) \<Rightarrow> string \<Rightarrow> world \<Rightarrow> (error + ClusterArgoCD) \<times> world" where
  "getClusterArgoCD flt name =
     client_get flt KClusterArgoCD '''' name (\<lambda>c. find (\<lambda>a. Name a = name) (clusterArgoCDs c))"

definition updateClusterArgoCD ::
  "(nat \<Rightarrow> bool) \<Rightarrow> ClusterArgoCD \<Rightarrow> world \<Rightarrow> error option \<times> world" where
  "updateClusterArgoCD flt a =
     client_write flt VUpdate KClusterArgoCD '''' (Name a)
       (\<lambda>c. map_sum id (\<lambda>xs. c\<lparr>clusterArgoCDs := xs\<rparr>) (updated Name a (clusterArgoCDs c)))"

text \<open>The idiom \<^verbatim>\<open>if err := f(); err != nil { return err }\<close> followed by more code.\<close>

definition andThen ::
  "(world \<Rightarrow> error option \<times> world) \<Rightarrow> (world \<Rightarrow> error option \<times> world)
     \<Rightarrow> world \<Rightarrow> error option \<times> world" where
  "andThen f g w = (case f w of (Some e, w1) \<Rightarrow> (Some e, w1) | (None, w1) \<Rightarrow> g w1)"

subsection \<open>Names and labels (util.go, role.go)\<close>

definition ArgoCDDefaultNamespace :: string where
  "ArgoCDDefaultNamespace = ''argocd''"

definition ArgoCDRepoServerComponent :: string where
  "ArgoCDRepoServerComponent = ''repo-server''"

definition ArgoCDNotificationsControllerComponent :: string where
  "ArgoCDNotificationsControllerComponent = ''notifications-controller''"

definition getClusterArgoCDManagedByLabel :: "ClusterArgoCD \<Rightarrow> string" where
  "getClusterArgoCDManagedByLabel clusterArgoCD = Name clusterArgoCD"

definition generateResourceName :: "string \<Rightarrow> ClusterArgoCD \<Rightarrow> string \<Rightarrow> string" where
  "generateResourceName componentName clusterArgoCD targetNamespace =
     Name clusterArgoCD @ ''-'' @ targetNamespace @ ''-'' @ componentName"

definition generateClusterRoleName :: "string \<Rightarrow> ClusterArgoCD \<Rightarrow> string" where
  "generateClusterRoleName componentName clusterArgoCD =
     Name clusterArgoCD @ ''-'' @ componentName"

definition getTargetNamespace :: "ClusterArgoCD \<Rightarrow> string" where
  "getTargetNamespace clusterArgoCD =
     (if ControlPlaneNamespace (Spec clusterArgoCD) \<noteq> ''''
      then ControlPlaneNamespace (Spec clusterArgoCD)
      else ArgoCDDefaultNamespace)"

definition getServiceAccountName :: "string \<Rightarrow> ClusterArgoCD \<Rightarrow> string" where
  "getServiceAccountName componentName clusterArgoCD =
     Name clusterArgoCD @ ''-'' @ componentName"

text \<open>The label map literal of \<^verbatim>\<open>getLabelsForClusterArgoCD\<close>; a later key of the
  literal overrides an equal earlier one, as in a Go map.\<close>

definition getLabelsForClusterArgoCD :: "common \<Rightarrow> ClusterArgoCD \<Rightarrow> labels" where
  "getLabelsForClusterArgoCD cm clusterArgoCD =
     AList.update (ArgoCDKeyManagedBy cm) (ArgoCDAppName cm)
       (AList.update (ArgoCDKeyPartOf cm) (ArgoCDAppName cm)
         [(ArgoCDKeyName cm, Name clusterArgoCD)])"

definition getAnnotationsForClusterArgoCD :: "ClusterArgoCD \<Rightarrow> labels" where
  "getAnnotationsForClusterArgoCD clusterArgoCD = []"

definition crud :: "string list" where
  "crud = [''get'', ''list'', ''watch'', ''create'', ''update'', ''patch'', ''delete'']"

definition getServerSourceNamespacePolicyRules :: "PolicyRule list" where
  "getServerSourceNamespacePolicyRules =
     [\<lparr>APIGroups = [''argoproj.io''], RuleResources = [''applications''], Verbs = crud\<rparr>,
      \<lparr>APIGroups = [''argoproj.io''], RuleResources = [''applicationsets''], Verbs = crud\<rparr>,
      \<lparr>APIGroups = [''argoproj.io''], RuleResources = [''appprojects''], Verbs = crud\<rparr>]"

definition getApplicationControllerPolicyRules :: "PolicyRule list" where
  "getApplicationControllerPolicyRules =
     [\<lparr>APIGroups = [''*''], RuleResources = [''*''], Verbs = [''get'', ''list'', ''watch'']\<rparr>,
      \<lparr>APIGroups = [''''], RuleResources = [''events''], Verbs = [''create'', ''patch'']\<rparr>]"

definition getServerPolicyRules :: "PolicyRule list" where
  "getServerPolicyRules =
     [\<lparr>APIGroups = [''*''], RuleResources = [''*''], Verbs = [''get'', ''list'', ''watch'']\<rparr>,
      \<lparr>APIGroups = [''''], RuleResources = [''secrets'', ''configmaps''],
       Verbs = [''get'', ''list'', ''watch'']\<rparr>]"

subsection \<open>Source namespaces (sourcenamespace.go)\<close>

definition createRoleInSourceNamespace ::
  "(nat \<Rightarrow> bool) \<Rightarrow> common \<Rightarrow> string \<Rightarrow> ClusterArgoCD \<Rightarrow> world \<Rightarrow> error option \<times> world" where
  "createRoleInSourceNamespace flt cm namespace clusterArgoCD w =
     (let roleName = generateResourceName (ArgoCDServerComponent cm) clusterArgoCD namespace;
          role = \<lparr>role_name = roleName, role_namespace = namespace,
                  role_labels = getLabelsForClusterArgoCD cm clusterArgoCD,
                  role_rules = getServerSourceNamespacePolicyRules\<rparr>
      in case getRole flt namespace roleName w of
           (Inl err, w1) \<Rightarrow>
             if \<not> IsNotFound err then (Some err, w1)
             else createRole flt role w1
         | (Inr existingRole, w1) \<Rightarrow>
             updateRole flt (existingRole\<lparr>role_rules := role_rules role\<rparr>) w1)"

text \<open>The three loops over the configured namespaces; \<^verbatim>\<open>continue\<close> is the recursive
  call on the rest of the list.\<close>

fun application_ns_loop ::
  "(nat \<Rightarrow> bool) \<Rightarrow> common \<Rightarrow> ClusterArgoCD \<Rightarrow> string list \<Rightarrow> world \<Rightarrow> error option \<times> world" where
  "application_ns_loop flt cm clusterArgoCD [] w = (None, w)"
| "application_ns_loop flt cm clusterArgoCD (namespace # rest) w =
     (case getNamespace flt namespace w of
        (Inl err, w1) \<Rightarrow>
          if IsNotFound err then application_ns_loop flt cm clusterArgoCD rest w1
          else (Some err, w1)
      | (Inr ns, w1) \<Rightarrow>
          (let managedByLabel = getClusterArgoCDManagedByLabel clusterArgoCD;
               labelKey = ArgoCDManagedByClusterArgoCDLabel cm;
               (err, w2) =
                 (if label_value (ns_labels ns) labelKey \<noteq> managedByLabel
                  then updateNamespace flt
                         (ns\<lparr>ns_labels := AList.update labelKey managedByLabel (ns_labels ns)\<rparr>) w1
                  else (None, w1))
           in case err of
                Some e \<Rightarrow> (Some e, w2)
              | None \<Rightarrow>
                  (let w3 = w2\<lparr>ManagedSourceNamespaces :=
                                 (ManagedSourceNamespaces w2)(namespace \<mapsto> Name clusterArgoCD)\<rparr>
                   in case createRoleInSourceNamespace flt cm namespace clusterArgoCD w3 of
                        (Some e, w4) \<Rightarrow> (Some e, w4)
                      | (None, w4) \<Rightarrow> application_ns_loop flt cm clusterArgoCD rest w4)))"

definition reconcileApplicationSourceNamespaces ::
  "(nat \<Rightarrow> bool) \<Rightarrow> common \<Rightarrow> ClusterArgoCD \<Rightarrow> world \<Rightarrow> error option \<times> world" where
  "reconcileApplicationSourceNamespaces flt cm clusterArgoCD w =
     (if length (SourceNamespaces (Spec clusterArgoCD)) = 0 then (None, w)
      else application_ns_loop flt cm clusterArgoCD (SourceNamespaces (Spec clusterArgoCD)) w)"

fun applicationset_ns_loop ::
  "(nat \<Rightarrow> bool) \<Rightarrow> common \<Rightarrow> ClusterArgoCD \<Rightarrow> string list \<Rightarrow> world \<Rightarrow> error option \<times> world" where
  "applicationset_ns_loop flt cm clusterArgoCD [] w = (None, w)"
| "applicationset_ns_loop flt cm clusterArgoCD (namespace # rest) w =
     (case getNamespace flt namespace w of
        (Inl err, w1) \<Rightarrow>
          if IsNotFound err then applicationset_ns_loop flt cm clusterArgoCD rest w1
          else (Some err, w1)
      | (Inr ns, w1) \<Rightarrow>
          (let managedByLabel = getClusterArgoCDManagedByLabel clusterArgoCD;
               labelKey = ArgoCDApplicationSetManagedByClusterArgoCDLabel cm;
               (err, w2) =
                 (if label_value (ns_labels ns) labelKey \<noteq> managedByLabel
                  then updateNamespace flt
                         (ns\<lparr>ns_labels := AList.update labelKey managedByLabel (ns_labels ns)\<rparr>) w1
                  else (None, w1))
           in case err of
                Some e \<Rightarrow> (Some e, w2)
              | None \<Rightarrow>
                  applicationset_ns_loop flt cm clusterArgoCD rest
                    (w2\<lparr>ManagedApplicationSetSourceNamespaces :=
                          (ManagedApplicationSetSourceNamespaces w2)
                            (namespace \<mapsto> Name clusterArgoCD)\<rparr>)))"

definition reconcileApplicationSetSourceNamespaces ::
  "(nat \<Rightarrow> bool) \<Rightarrow> common \<Rightarrow> ClusterArgoCD \<Rightarrow> world \<Rightarrow> error option \<times> world" where
  "reconcileApplicationSetSourceNamespaces flt cm clusterArgoCD w =
     (case ApplicationSet (Spec clusterArgoCD) of
        None \<Rightarrow> (None, w)
      | Some appset \<Rightarrow>
          if length (appset_SourceNamespaces appset) = 0 then (None, w)
          else applicationset_ns_loop flt cm clusterArgoCD (appset_SourceNamespaces appset) w)"

fun notifications_ns_loop ::
  "(nat \<Rightarrow> bool) \<Rightarrow> common \<Rightarrow> ClusterArgoCD \<Rightarrow> string list \<Rightarrow> world \<Rightarrow> error option \<times> world" where
  "notifications_ns_loop flt cm clusterArgoCD [] w = (None, w)"
| "notifications_ns_loop flt cm clusterArgoCD (namespace # rest) w =
     (case getNamespace flt namespace w of
        (Inl err, w1) \<Rightarrow>
          if IsNotFound err then notifications_ns_loop flt cm clusterArgoCD rest w1
          else (Some err, w1)
      | (Inr ns, w1) \<Rightarrow>
          (let managedByLabel = getClusterArgoCDManagedByLabel clusterArgoCD;
               labelKey = ArgoCDNotificationsManagedByClusterArgoCDLabel cm;
               (err, w2) =
                 (if label_value (ns_labels ns) labelKey \<noteq> managedByLabel
                  then updateNamespace flt
                         (ns\<lparr>ns_labels := AList.update labelKey managedByLabel (ns_labels ns)\<rparr>) w1
                  else (None, w1))
           in case err of
                Some e \<Rightarrow> (Some e, w2)
              | None \<Rightarrow>
                  notifications_ns_loop flt cm clusterArgoCD rest
                    (w2\<lparr>ManagedNotificationsSourceNamespaces :=
                          (ManagedNotificationsSourceNamespaces w2)
                            (namespace \<mapsto> Name clusterArgoCD)\<rparr>)))"

definition reconcileNotificationsSourceNamespaces ::
  "(nat \<Rightarrow> bool) \<Rightarrow> common \<Rightarrow> ClusterArgoCD \<Rightarrow> world \<Rightarrow> error option \<times> world" where
  "reconcileNotificationsSourceNamespaces flt cm clusterArgoCD w =
     (if \<not> notif_Enabled (Notifications (Spec clusterArgoCD))
         \<or> length (notif_SourceNamespaces (Notifications (Spec clusterArgoCD))) = 0
      then (None, w)
      else notifications_ns_loop flt cm clusterArgoCD
             (notif_SourceNamespaces (Notifications (Spec clusterArgoCD))) w)"

text \<open>The set \<^verbatim>\<open>currentSourceNamespaces\<close> of \<^verbatim>\<open>cleanupUnmanagedSourceNamespaces\<close>.\<close>

definition currentSourceNamespaces :: "ClusterArgoCD \<Rightarrow> string set" where
  "currentSourceNamespaces clusterArgoCD =
     set (SourceNamespaces (Spec clusterArgoCD))
     \<union> (case ApplicationSet (Spec clusterArgoCD) of
          None \<Rightarrow> {}
        | Some appset \<Rightarrow> set (appset_SourceNamespaces appset))
     \<union> (if notif_Enabled (Notifications (Spec clusterArgoCD))
        then set (notif_SourceNamespaces (Notifications (Spec clusterArgoCD)))
        else {})"

text \<open>The final loop of \<^verbatim>\<open>cleanupUnmanagedSourceNamespaces\<close>: an update that fails is
  logged, and the loop goes on.\<close>

fun cleanup_loop ::
  "(nat \<Rightarrow> bool) \<Rightarrow> string \<Rightarrow> string set \<Rightarrow> Namespace list \<Rightarrow> world \<Rightarrow> world" where
  "cleanup_loop flt labelKey current [] w = w"
| "cleanup_loop flt labelKey current (ns # rest) w =
     (if ns_name ns \<notin> current
      then cleanup_loop flt labelKey current rest
             (snd (updateNamespace flt (ns\<lparr>ns_labels := AList.delete labelKey (ns_labels ns)\<rparr>) w))
      else cleanup_loop flt labelKey current rest w)"

definition cleanupUnmanagedSourceNamespaces ::
  "(nat \<Rightarrow> bool) \<Rightarrow> common \<Rightarrow> ClusterArgoCD \<Rightarrow> world \<Rightarrow> error option \<times> world" where
  "cleanupUnmanagedSourceNamespaces flt cm clusterArgoCD w =
     (let managedByLabel = getClusterArgoCDManagedByLabel clusterArgoCD;
          labelKey = ArgoCDManagedByClusterArgoCDLabel cm
      in case listNamespaces flt labelKey managedByLabel w of
           (Inl err, w1) \<Rightarrow> (Some err, w1)
         | (Inr items, w1) \<Rightarrow>
             (None, cleanup_loop flt labelKey (currentSourceNamespaces clusterArgoCD) items w1))"

definition reconcileSourceNamespaces ::
  "(nat \<Rightarrow> bool) \<Rightarrow> common \<Rightarrow> ClusterArgoCD \<Rightarrow> world \<Rightarrow> error option \<times> world" where
  "reconcileSourceNamespaces flt cm clusterArgoCD =
     andThen (reconcileApplicationSourceNamespaces flt cm clusterArgoCD)
    (andThen (reconcileApplicationSetSourceNamespaces flt cm clusterArgoCD)
    (andThen (reconcileNotificationsSourceNamespaces flt cm clusterArgoCD)
             (cleanupUnmanagedSourceNamespaces flt cm clusterArgoCD)))"

subsection \<open>Finalizer and teardown (finalizer.go)\<close>

definition addDeletionFinalizer ::
  "(nat \<Rightarrow> bool) \<Rightarrow> ClusterArgoCD \<Rightarrow> world \<Rightarrow> error option \<times> world" where
  "addDeletionFinalizer flt clusterArgoCD =
     updateClusterArgoCD flt
       (clusterArgoCD\<lparr>Finalizers := Finalizers clusterArgoCD @ [ArgoCDDeletionFinalizer]\<rparr>)"

definition removeDeletionFinalizer ::
  "(nat \<Rightarrow> bool) \<Rightarrow> ClusterArgoCD \<Rightarrow> world \<Rightarrow> error option \<times> world" where
  "removeDeletionFinalizer flt clusterArgoCD =
     updateClusterArgoCD flt
       (clusterArgoCD\<lparr>Finalizers :=
          filter (\<lambda>finalizer. finalizer \<noteq> ArgoCDDeletionFinalizer) (Finalizers clusterArgoCD)\<rparr>)"

fun delete_cluster_roles ::
  "(nat \<Rightarrow> bool) \<Rightarrow> ClusterRole list \<Rightarrow> world \<Rightarrow> error option \<times> world" where
  "delete_cluster_roles flt [] w = (None, w)"
| "delete_cluster_roles flt (clusterRole # rest) w =
     (case deleteClusterRole flt clusterRole w of
        (Some err, w1) \<Rightarrow>
          if \<not> IsNotFound err then (Some err, w1) else delete_cluster_roles flt rest w1
      | (None, w1) \<Rightarrow> delete_cluster_roles flt rest w1)"

fun delete_cluster_role_bindings ::
  "(nat \<Rightarrow> bool) \<Rightarrow> ClusterRoleBinding list \<Rightarrow> world \<Rightarrow> error option \<times> world" where
  "delete_cluster_role_bindings flt [] w = (None, w)"
| "delete_cluster_role_bindings flt (clusterRoleBinding # rest) w =
     (case deleteClusterRoleBinding flt clusterRoleBinding w of
        (Some err, w1) \<Rightarrow>
          if \<not> IsNotFound err then (Some err, w1) else delete_cluster_role_bindings flt rest w1
      | (None, w1) \<Rightarrow> delete_cluster_role_bindings flt rest w1)"

definition deleteClusterResources ::
  "(nat \<Rightarrow> bool) \<Rightarrow> common \<Rightarrow> ClusterArgoCD \<Rightarrow> world \<Rightarrow> error option \<times> world" where
  "deleteClusterResources flt cm clusterArgoCD w =
     (case listClusterRoles flt (ArgoCDKeyName cm) (Name clusterArgoCD) w of
        (Inl err, w1) \<Rightarrow> (Some err, w1)
      | (Inr clusterRoleList, w1) \<Rightarrow>
          (case delete_cluster_roles flt clusterRoleList w1 of
             (Some err, w2) \<Rightarrow> (Some err, w2)
           | (None, w2) \<Rightarrow>
               (case listClusterRoleBindings flt (ArgoCDKeyName cm) (Name clusterArgoCD) w2 of
                  (Inl err, w3) \<Rightarrow> (Some err, w3)
                | (Inr clusterRoleBindingList, w3) \<Rightarrow>
                    delete_cluster_role_bindings flt clusterRoleBindingList w3)))"

text \<open>The object that \<^verbatim>\<open>cleanupAllSourceNamespaces\<close> builds: the instance's name and a
  spec with no source namespaces; every other field has its zero value.\<close>

definition emptyClusterArgoCD :: "string \<Rightarrow> ClusterArgoCD" where
  "emptyClusterArgoCD name =
     \<lparr>Name = name, Labels = [], DeletionTimestamp = None, Finalizers = [],
      Spec = \<lparr>ControlPlaneNamespace = '''', SourceNamespaces = [], ApplicationSet = None,
              Notifications = \<lparr>notif_Enabled = False, notif_SourceNamespaces = []\<rparr>,
              ArgoCDAgent = None, HA_Enabled = False\<rparr>,
      Status = \<lparr>Phase = '''', RepoTLSChecksum = '''', RedisTLSChecksum = ''''\<rparr>\<rparr>"

definition cleanupAllSourceNamespaces ::
  "(nat \<Rightarrow> bool) \<Rightarrow> common \<Rightarrow> ClusterArgoCD \<Rightarrow> world \<Rightarrow> error option \<times> world" where
  "cleanupAllSourceNamespaces flt cm clusterArgoCD =
     cleanupUnmanagedSourceNamespaces flt cm (emptyClusterArgoCD (Name clusterArgoCD))"

text \<open>The key test of \<^verbatim>\<open>cleanupClusterInstanceTokenTimers\<close>:
  \<^verbatim>\<open>len(key) > len(name) && key[:len(name)] == name\<close>.\<close>

definition timer_key_matches :: "string \<Rightarrow> string \<Rightarrow> bool" where
  "timer_key_matches clusterArgoCDName key \<longleftrightarrow>
     length key > length clusterArgoCDName
     \<and> take (length clusterArgoCDName) key = clusterArgoCDName"

definition cleanupClusterInstanceTokenTimers :: "string \<Rightarrow> world \<Rightarrow> world" where
  "cleanupClusterInstanceTokenTimers clusterArgoCDName w =
     (let w1 = w\<lparr>trace := trace w @ [TimersCleanup clusterArgoCDName]\<rparr> in
      case TokenRenewalTimers w1 of
        None \<Rightarrow> w1
      | Some timers \<Rightarrow>
          w1\<lparr>TokenRenewalTimers :=
               Some (filter (\<lambda>(key, _). \<not> timer_key_matches clusterArgoCDName key) timers)\<rparr>)"

subsection \<open>Cluster roles, bindings and service accounts (role.go, service accounts)\<close>

definition newClusterRole :: "common \<Rightarrow> string \<Rightarrow> PolicyRule list \<Rightarrow> ClusterArgoCD \<Rightarrow> ClusterRole" where
  "newClusterRole cm name rules clusterArgoCD =
     \<lparr>cr_name = generateClusterRoleName name clusterArgoCD,
      cr_labels = getLabelsForClusterArgoCD cm clusterArgoCD,
      cr_annotations = getAnnotationsForClusterArgoCD clusterArgoCD,
      cr_rules = rules\<rparr>"

definition clusterRoleNeedsUpdate :: "ClusterRole \<Rightarrow> ClusterRole \<Rightarrow> bool" where
  "clusterRoleNeedsUpdate existingRole desired \<longleftrightarrow>
     length (cr_rules existingRole) \<noteq> length (cr_rules desired)"

definition reconcileClusterRole ::
  "(nat \<Rightarrow> bool) \<Rightarrow> common \<Rightarrow> string \<Rightarrow> PolicyRule list \<Rightarrow> ClusterArgoCD \<Rightarrow> world
     \<Rightarrow> error option \<times> world" where
  "reconcileClusterRole flt cm componentName policyRules clusterArgoCD w =
     (let clusterRole = newClusterRole cm componentName policyRules clusterArgoCD in
      case getClusterRole flt (cr_name clusterRole) w of
        (Inl err, w1) \<Rightarrow>
          if \<not> IsNotFound err then (Some err, w1)
          else createClusterRole flt clusterRole w1
      | (Inr existingClusterRole, w1) \<Rightarrow>
          if \<not> clusterRoleNeedsUpdate existingClusterRole clusterRole then (None, w1)
          else updateClusterRole flt
                 (existingClusterRole\<lparr>cr_rules := cr_rules clusterRole,
                                       cr_labels := cr_labels clusterRole,
                                       cr_annotations := cr_annotations clusterRole\<rparr>) w1)"

definition reconcileClusterRoles ::
  "(nat \<Rightarrow> bool) \<Rightarrow> common \<Rightarrow> ClusterArgoCD \<Rightarrow> world \<Rightarrow> error option \<times> world" where
  "reconcileClusterRoles flt cm clusterArgoCD =
     andThen (reconcileClusterRole flt cm (ArgoCDApplicationControllerComponent cm)
                getApplicationControllerPolicyRules clusterArgoCD)
             (reconcileClusterRole flt cm (ArgoCDServerComponent cm)
                getServerPolicyRules clusterArgoCD)"

definition clusterRoleBindingNeedsUpdate :: "ClusterRoleBinding \<Rightarrow> ClusterRoleBinding \<Rightarrow> bool" where
  "clusterRoleBindingNeedsUpdate existingBinding desired \<longleftrightarrow>
     crb_roleRef existingBinding \<noteq> crb_roleRef desired
     \<or> length (crb_subjects existingBinding) \<noteq> length (crb_subjects desired)"

definition reconcileClusterRoleBinding ::
  "(nat \<Rightarrow> bool) \<Rightarrow> common \<Rightarrow> string \<Rightarrow> string \<Rightarrow> ClusterArgoCD \<Rightarrow> world
     \<Rightarrow> error option \<times> world" where
  "reconcileClusterRoleBinding flt cm componentName targetNamespace clusterArgoCD w =
     (let clusterRoleBindingName = generateClusterRoleName componentName clusterArgoCD;
          clusterRoleName = generateClusterRoleName componentName clusterArgoCD;
          serviceAccountName = getServiceAccountName componentName clusterArgoCD;
          desiredClusterRoleBinding =
            \<lparr>crb_name = clusterRoleBindingName,
             crb_labels = getLabelsForClusterArgoCD cm clusterArgoCD,
             crb_annotations = getAnnotationsForClusterArgoCD clusterArgoCD,
             crb_roleRef = \<lparr>ref_apiGroup = ''rbac.authorization.k8s.io'',
                            ref_kind = ''ClusterRole'', ref_name = clusterRoleName\<rparr>,
             crb_subjects = [\<lparr>subj_kind = ''ServiceAccount'', subj_name = serviceAccountName,
                              subj_namespace = targetNamespace\<rparr>]\<rparr>
      in case getClusterRoleBinding flt clusterRoleBindingName w of
           (Inl err, w1) \<Rightarrow>
             if \<not> IsNotFound err then (Some err, w1)
             else createClusterRoleBinding flt desiredClusterRoleBinding w1
         | (Inr existingClusterRoleBinding, w1) \<Rightarrow>
             if \<not> clusterRoleBindingNeedsUpdate existingClusterRoleBinding desiredClusterRoleBinding
             then (None, w1)
             else updateClusterRoleBinding flt
                    (existingClusterRoleBinding
                       \<lparr>crb_roleRef := crb_roleRef desiredClusterRoleBinding,
                        crb_subjects := crb_subjects desiredClusterRoleBinding,
                        crb_labels := crb_labels desiredClusterRoleBinding,
                        crb_annotations := crb_annotations desiredClusterRoleBinding\<rparr>) w1)"

definition reconcileClusterRoleBindings ::
  "(nat \<Rightarrow> bool) \<Rightarrow> common \<Rightarrow> ClusterArgoCD \<Rightarrow> world \<Rightarrow> error option \<times> world" where
  "reconcileClusterRoleBindings flt cm clusterArgoCD =
     (let targetNamespace = getTargetNamespace clusterArgoCD in
      andThen (reconcileClusterRoleBinding flt cm (ArgoCDApplicationControllerComponent cm)
                 targetNamespace clusterArgoCD)
              (reconcileClusterRoleBinding flt cm (ArgoCDServerComponent cm)
                 targetNamespace clusterArgoCD))"

definition labels_differ :: "labels \<Rightarrow> labels \<Rightarrow> bool" where
  "labels_differ existingLabels desired \<longleftrightarrow>
     length existingLabels \<noteq> length desired
     \<or> list_ex (\<lambda>(k, v). label_value existingLabels k \<noteq> v) desired"

definition serviceAccountNeedsUpdate :: "ServiceAccount \<Rightarrow> ServiceAccount \<Rightarrow> bool" where
  "serviceAccountNeedsUpdate existingAccount desired \<longleftrightarrow>
     labels_differ (sa_labels existingAccount) (sa_labels desired)
     \<or> labels_differ (sa_annotations existingAccount) (sa_annotations desired)"

definition reconcileServiceAccount ::
  "(nat \<Rightarrow> bool) \<Rightarrow> common \<Rightarrow> string \<Rightarrow> string \<Rightarrow> ClusterArgoCD \<Rightarrow> world
     \<Rightarrow> error option \<times> world" where
  "reconcileServiceAccount flt cm componentName targetNamespace clusterArgoCD w =
     (let serviceAccountName = getServiceAccountName componentName clusterArgoCD;
          desiredServiceAccount =
            \<lparr>sa_name = serviceAccountName, sa_namespace = targetNamespace,
             sa_labels = getLabelsForClusterArgoCD cm clusterArgoCD,
             sa_annotations = getAnnotationsForClusterArgoCD clusterArgoCD\<rparr>
      in case getServiceAccount flt targetNamespace serviceAccountName w of
           (Inl err, w1) \<Rightarrow>
             if \<not> IsNotFound err then (Some err, w1)
             else createServiceAccount flt desiredServiceAccount w1
         | (Inr existingServiceAccount, w1) \<Rightarrow>
             if \<not> serviceAccountNeedsUpdate existingServiceAccount desiredServiceAccount
             then (None, w1)
             else updateServiceAccount flt
                    (existingServiceAccount
                       \<lparr>sa_labels := sa_labels desiredServiceAccount,
                        sa_annotations := sa_annotations desiredServiceAccount\<rparr>) w1)"

text \<open>The test used three times in the package: the ApplicationSet block is present and
  not switched off.\<close>

definition applicationSetEnabled :: "ClusterArgoCD \<Rightarrow> bool" where
  "applicationSetEnabled clusterArgoCD \<longleftrightarrow>
     (case ApplicationSet (Spec clusterArgoCD) of
        None \<Rightarrow> False
      | Some appset \<Rightarrow> (case appset_Enabled appset of None \<Rightarrow> True | Some enabled \<Rightarrow> enabled))"

definition skip :: "world \<Rightarrow> error option \<times> world" where
  "skip w = (None, w)"

definition reconcileServiceAccounts ::
  "(nat \<Rightarrow> bool) \<Rightarrow> common \<Rightarrow> ClusterArgoCD \<Rightarrow> world \<Rightarrow> error option \<times> world" where
  "reconcileServiceAccounts flt cm clusterArgoCD =
     (let targetNamespace = getTargetNamespace clusterArgoCD in
      andThen (reconcileServiceAccount flt cm (ArgoCDApplicationControllerComponent cm)
                 targetNamespace clusterArgoCD)
     (andThen (reconcileServiceAccount flt cm (ArgoCDServerComponent cm)
                 targetNamespace clusterArgoCD)
     (andThen (reconcileServiceAccount flt cm ArgoCDRepoServerComponent
                 targetNamespace clusterArgoCD)
     (andThen (if applicationSetEnabled clusterArgoCD
               then reconcileServiceAccount flt cm (ArgoCDApplicationSetControllerComponent cm)
                      targetNamespace clusterArgoCD
               else skip)
              (if notif_Enabled (Notifications (Spec clusterArgoCD))
               then reconcileServiceAccount flt cm ArgoCDNotificationsControllerComponent
                      targetNamespace clusterArgoCD
               else skip)))))"

subsection \<open>The reconcile pass (reconcile_resources.go, clusterargocd\_controller.go)\<close>

text \<open>
  The reconcilers of Services, Deployments and StatefulSets of this package, and the
  ApplicationSet, Notifications and Agent integrations, are placeholders in the sources:
  each logs a line and returns nil without calling the client.
\<close>

definition reconcileServices :: "ClusterArgoCD \<Rightarrow> world \<Rightarrow> error option \<times> world" where
  "reconcileServices clusterArgoCD = andThen skip (andThen skip (andThen skip skip))"

definition reconcileDeployments :: "ClusterArgoCD \<Rightarrow> world \<Rightarrow> error option \<times> world" where
  "reconcileDeployments clusterArgoCD =
     andThen skip (andThen skip (andThen skip
       (andThen (if applicationSetEnabled clusterArgoCD then skip else skip)
                (if notif_Enabled (Notifications (Spec clusterArgoCD)) then skip else skip))))"

definition reconcileStatefulSets :: "ClusterArgoCD \<Rightarrow> world \<Rightarrow> error option \<times> world" where
  "reconcileStatefulSets clusterArgoCD =
     andThen skip (if HA_Enabled (Spec clusterArgoCD) then skip else skip)"

definition reconcileTargetNamespaceResources ::
  "ClusterArgoCD \<Rightarrow> world \<Rightarrow> error option \<times> world" where
  "reconcileTargetNamespaceResources clusterArgoCD =
     andThen (reconcileServices clusterArgoCD)
    (andThen (reconcileDeployments clusterArgoCD)
             (reconcileStatefulSets clusterArgoCD))"

definition resource_phases ::
  "(nat \<Rightarrow> bool) \<Rightarrow> common \<Rightarrow> ClusterArgoCD \<Rightarrow> world \<Rightarrow> error option \<times> world" where
  "resource_phases flt cm clusterArgoCD =
     andThen (reconcileClusterRoles flt cm clusterArgoCD)
    (andThen (reconcileClusterRoleBindings flt cm clusterArgoCD)
    (andThen (reconcileServiceAccounts flt cm clusterArgoCD)
    (andThen (reconcileTargetNamespaceResources clusterArgoCD)
    (andThen (if applicationSetEnabled clusterArgoCD then skip else skip)
    (andThen (if notif_Enabled (Notifications (Spec clusterArgoCD)) then skip else skip)
             (if ArgoCDAgent (Spec clusterArgoCD) \<noteq> None then skip else skip))))))"

definition reconcileResources ::
  "(nat \<Rightarrow> bool) \<Rightarrow> common \<Rightarrow> ClusterArgoCD \<Rightarrow> ArgoCDStatus \<Rightarrow> world
     \<Rightarrow> error option \<times> ArgoCDStatus \<times> world" where
  "reconcileResources flt cm clusterArgoCD status w =
     (case resource_phases flt cm clusterArgoCD w of
        (Some err, w1) \<Rightarrow> (Some err, status, w1)
      | (None, w1) \<Rightarrow> (None, status\<lparr>Phase := ''Available''\<rparr>, w1))"

text \<open>
  \<^verbatim>\<open>internalReconcile\<close>. \<^verbatim>\<open>LabelSelector\<close> is the outcome of parsing the operator's
  label selector: nothing when it does not parse, otherwise the test it applies to the
  labels of the instance. The bookkeeping of the active-instance map and of the metrics
  is left out. Returned are the error, the status to be written, and the new state.
\<close>

definition internalReconcile ::
  "(nat \<Rightarrow> bool) \<Rightarrow> common \<Rightarrow> (labels \<Rightarrow> bool) option \<Rightarrow> string \<Rightarrow> world
     \<Rightarrow> error option \<times> ArgoCDStatus \<times> world" where
  "internalReconcile flt cm LabelSelector name w =
     (let blank = \<lparr>Phase = '''', RepoTLSChecksum = '''', RedisTLSChecksum = ''''\<rparr> in
      case getClusterArgoCD flt name w of
        (Inl err, w1) \<Rightarrow>
          if IsNotFound err then (None, blank, w1) else (Some err, blank, w1)
      | (Inr clusterArgoCD, w1) \<Rightarrow>
          (let argoCDStatus =
                 blank\<lparr>RepoTLSChecksum := RepoTLSChecksum (Status clusterArgoCD),
                       RedisTLSChecksum := RedisTLSChecksum (Status clusterArgoCD)\<rparr>
           in case LabelSelector of
                None \<Rightarrow> (Some LabelSelectorParseError, argoCDStatus, w1)
              | Some matches \<Rightarrow>
                  if \<not> matches (Labels clusterArgoCD)
                  then (Some LabelSelectorMismatch, argoCDStatus, w1)
                  else if DeletionTimestamp clusterArgoCD \<noteq> None then
                    (let unknown = argoCDStatus\<lparr>Phase := ''Unknown''\<rparr>;
                         w2 = cleanupClusterInstanceTokenTimers name w1
                     in if IsDeletionFinalizerPresent clusterArgoCD
                        then (case andThen (deleteClusterResources flt cm clusterArgoCD)
                                   (andThen (cleanupAllSourceNamespaces flt cm clusterArgoCD)
                                            (removeDeletionFinalizer flt clusterArgoCD)) w2 of
                                (err, w3) \<Rightarrow> (err, unknown, w3))
                        else (None, unknown, w2))
                  else
                    (case (if \<not> IsDeletionFinalizerPresent clusterArgoCD
                           then addDeletionFinalizer flt clusterArgoCD w1
                           else (None, w1)) of
                       (Some err, w2) \<Rightarrow> (Some err, argoCDStatus, w2)
                     | (None, w2) \<Rightarrow>
                         (let withFinalizer =
                                (if \<not> IsDeletionFinalizerPresent clusterArgoCD
                                 then clusterArgoCD\<lparr>Finalizers :=
                                        Finalizers clusterArgoCD @ [ArgoCDDeletionFinalizer]\<rparr>
                                 else clusterArgoCD)
                          in case reconcileSourceNamespaces flt cm withFinalizer w2 of
                               (Some err, w3) \<Rightarrow> (Some err, argoCDStatus, w3)
                             | (None, w3) \<Rightarrow>
                                 reconcileResources flt cm withFinalizer argoCDStatus w3))))"

subsection \<open>Example states\<close>

text \<open>Sample values for the constants of package \<^verbatim>\<open>common\<close>, three instances, and a
  few small clusters used to run the controller on.\<close>

definition example_common :: common where
  "example_common =
     \<lparr>ArgoCDManagedByClusterArgoCDLabel = ''argocd.argoproj.io/managed-by-cluster-argocd'',
      ArgoCDApplicationSetManagedByClusterArgoCDLabel =
        ''argocd.argoproj.io/applicationset-managed-by-cluster-argocd'',
      ArgoCDNotificationsManagedByClusterArgoCDLabel =
        ''argocd.argoproj.io/notifications-managed-by-cluster-argocd'',
      ArgoCDKeyName = ''app.kubernetes.io/name'',
      ArgoCDKeyPartOf = ''app.kubernetes.io/part-of'',
      ArgoCDKeyManagedBy = ''app.kubernetes.io/managed-by'',
      ArgoCDAppName = ''argocd'',
      ArgoCDApplicationControllerComponent = ''argocd-application-controller'',
      ArgoCDServerComponent = ''argocd-server'',
      ArgoCDApplicationSetControllerComponent = ''argocd-applicationset-controller''\<rparr>"

definition no_fault :: "nat \<Rightarrow> bool" where
  "no_fault i = False"

definition fault_at :: "nat \<Rightarrow> nat \<Rightarrow> bool" where
  "fault_at n i \<longleftrightarrow> i = n"

definition any_labels :: "(labels \<Rightarrow> bool) option" where
  "any_labels = Some (\<lambda>ls. True)"

definition instance_with_apps :: "string \<Rightarrow> string list \<Rightarrow> ClusterArgoCD" where
  "instance_with_apps name sourceNamespaces =
     (emptyClusterArgoCD name)
       \<lparr>Spec := (Spec (emptyClusterArgoCD name))\<lparr>SourceNamespaces := sourceNamespaces\<rparr>\<rparr>"

definition instance_with_appsets :: "string \<Rightarrow> string list \<Rightarrow> ClusterArgoCD" where
  "instance_with_appsets name sourceNamespaces =
     (emptyClusterArgoCD name)
       \<lparr>Spec := (Spec (emptyClusterArgoCD name))
          \<lparr>ApplicationSet :=
             Some \<lparr>appset_Enabled = None, appset_SourceNamespaces = sourceNamespaces\<rparr>\<rparr>\<rparr>"

definition instance_in_deletion :: "string \<Rightarrow> ClusterArgoCD" where
  "instance_in_deletion name =
     (emptyClusterArgoCD name)
       \<lparr>DeletionTimestamp := Some ''2025-01-01T00:00:00Z'',
        Finalizers := [ArgoCDDeletionFinalizer]\<rparr>"

definition world_of :: "cluster \<Rightarrow> world" where
  "world_of c =
     \<lparr>store = c, trace = [], ManagedSourceNamespaces = Map.empty,
      ManagedApplicationSetSourceNamespaces = Map.empty,
      ManagedNotificationsSourceNamespaces = Map.empty,
      TokenRenewalTimers = Some [(''a/admin'', 1)]\<rparr>"

text \<open>Namespace \<^verbatim>\<open>ns1\<close> carries the apps label of instance \<^verbatim>\<open>a\<close>; instance \<^verbatim>\<open>b\<close> lists
  \<^verbatim>\<open>ns1\<close> among its application source namespaces.\<close>

definition claimed_by_a :: world where
  "claimed_by_a = world_of
     \<lparr>namespaces = [\<lparr>ns_name = ''ns1'',
         ns_labels = [(''argocd.argoproj.io/managed-by-cluster-argocd'', ''a'')]\<rparr>],
      roles = [], clusterRoles = [], clusterRoleBindings = [], serviceAccounts = [],
      clusterArgoCDs = [instance_with_apps ''b'' [''ns1'']]\<rparr>"

text \<open>Namespace \<^verbatim>\<open>ns1\<close> carries no label; instance \<^verbatim>\<open>a\<close> lists it for ApplicationSets
  only.\<close>

definition appset_only :: world where
  "appset_only = world_of
     \<lparr>namespaces = [\<lparr>ns_name = ''ns1'', ns_labels = []\<rparr>],
      roles = [], clusterRoles = [], clusterRoleBindings = [], serviceAccounts = [],
      clusterArgoCDs = [instance_with_appsets ''a'' [''ns1'']]\<rparr>"

text \<open>Namespace \<^verbatim>\<open>ns1\<close> without labels; instance \<^verbatim>\<open>a\<close> lists it for applications.\<close>

definition fresh_apps :: world where
  "fresh_apps = world_of
     \<lparr>namespaces = [\<lparr>ns_name = ''ns1'', ns_labels = []\<rparr>],
      roles = [], clusterRoles = [], clusterRoleBindings = [], serviceAccounts = [],
      clusterArgoCDs = [instance_with_apps ''a'' [''ns1'']]\<rparr>"

text \<open>Instance \<^verbatim>\<open>a\<close> is being deleted and still has its finalizer. Namespace \<^verbatim>\<open>ns1\<close>
  carries its apps and app-set labels and holds the Role the instance created there; one
  ClusterRole carries the instance's name label.\<close>

definition a_server_role :: Role where
  "a_server_role =
     \<lparr>role_name = ''a-ns1-argocd-server'', role_namespace = ''ns1'',
      role_labels = getLabelsForClusterArgoCD example_common (instance_in_deletion ''a''),
      role_rules = getServerSourceNamespacePolicyRules\<rparr>"

definition deleting_a :: world where
  "deleting_a = world_of
     \<lparr>namespaces = [\<lparr>ns_name = ''ns1'',
         ns_labels = [(''argocd.argoproj.io/managed-by-cluster-argocd'', ''a''),
                      (''argocd.argoproj.io/applicationset-managed-by-cluster-argocd'', ''a'')]\<rparr>],
      roles = [a_server_role],
      clusterRoles = [newClusterRole example_common ''argocd-server'' getServerPolicyRules
                        (instance_in_deletion ''a'')],
      clusterRoleBindings = [], serviceAccounts = [],
      clusterArgoCDs = [instance_in_deletion ''a'']\<rparr>"

text \<open>The writing calls among the events, and the events a run adds to the trace.\<close>

fun is_write :: "event \<Rightarrow> bool" where
  "is_write (Call VCreate _ _ _) = True"
| "is_write (Call VUpdate _ _ _) = True"
| "is_write (Call VDelete _ _ _) = True"
| "is_write _ = False"

definition state_after :: "error option \<times> ArgoCDStatus \<times> world \<Rightarrow> world" where
  "state_after r = snd (snd r)"

subsection \<open>Predicates on runs\<close>

text \<open>
  \<open>fails_fast flt q n new r\<close>: in the events \<open>new\<close> that a run appended to the trace from
  position \<open>n\<close> on, an event selected by \<open>q\<close> whose call failed is the last event of the
  run, and the run returned that call's error \<open>r\<close>.
\<close>

fun fails_fast :: "(nat \<Rightarrow> bool) \<Rightarrow> (event \<Rightarrow> bool) \<Rightarrow> nat \<Rightarrow> event list \<Rightarrow> error option \<Rightarrow> bool" where
  "fails_fast flt q n [] r = True"
| "fails_fast flt q n (e # es) r =
     (if flt n \<and> q e then es = [] \<and> r = Some (ClientError n)
      else fails_fast flt q (Suc n) es r)"

text \<open>\<open>behaves flt q p f\<close>: whatever the state, \<open>f\<close> only appends to the trace, appends
  only events that satisfy \<open>p\<close>, and fails fast on the events selected by \<open>q\<close>.\<close>

definition behaves ::
  "(nat \<Rightarrow> bool) \<Rightarrow> (event \<Rightarrow> bool) \<Rightarrow> (event \<Rightarrow> bool)
     \<Rightarrow> (world \<Rightarrow> error option \<times> world) \<Rightarrow> bool" where
  "behaves flt q p f \<longleftrightarrow>
     (\<forall>w r w'. f w = (r, w') \<longrightarrow>
        (\<exists>new. trace w' = trace w @ new \<and> list_all p new
             \<and> fails_fast flt q (length (trace w)) new r))"





fun is_call :: "event \<Rightarrow> bool" where
  "is_call (Call v k a b) = True"
| "is_call (TimersCleanup n) = False"

text \<open>Two reconcile passes in a row on the same instance, nothing else happening in
  between.\<close>

definition first_pass :: "error option \<times> ArgoCDStatus \<times> world" where
  "first_pass = internalReconcile no_fault example_common any_labels ''a'' fresh_apps"

definition second_pass :: "error option \<times> ArgoCDStatus \<times> world" where
  "second_pass =
     internalReconcile no_fault example_common any_labels ''a'' (state_after first_pass)"





section \<open>Properties of the metadata merge\<close>

lemma glob_star_all: "glob_match [CHR ''*''] s"
  by (induction s) simp_all

lemma glob_literal:
  "CHR ''*'' \<notin> set lit \<Longrightarrow> glob_match (lit @ ps) s \<longleftrightarrow> (\<exists>t. s = lit @ t \<and> glob_match ps t)"
proof (induction lit arbitrary: s)
  case Nil
  then show ?case by simp
next
  case (Cons a lit)
  then show ?case by (cases s) auto
qed

lemma glob_star:
  "glob_match (CHR ''*'' # ps) s \<longleftrightarrow> (\<exists>u v. s = u @ v \<and> glob_match ps v)"
proof (induction s)
  case Nil
  then show ?case by simp
next
  case (Cons c cs)
  show ?case
  proof
    assume "glob_match (CHR ''*'' # ps) (c # cs)"
    then consider "glob_match ps (c # cs)" | "glob_match (CHR ''*'' # ps) cs" by auto
    then show "\<exists>u v. c # cs = u @ v \<and> glob_match ps v"
    proof cases
      case 1
      then have "c # cs = [] @ (c # cs) \<and> glob_match ps (c # cs)" by simp
      then show ?thesis by blast
    next
      case 2
      with Cons obtain u v where "cs = u @ v" "glob_match ps v" by blast
      then have "c # cs = (c # u) @ v \<and> glob_match ps v" by simp
      then show ?thesis by blast
    qed
  next
    assume "\<exists>u v. c # cs = u @ v \<and> glob_match ps v"
    then obtain u v where uv: "c # cs = u @ v" "glob_match ps v" by blast
    show "glob_match (CHR ''*'' # ps) (c # cs)"
    proof (cases u)
      case Nil
      with uv have "glob_match ps (c # cs)" by simp
      then show ?thesis by simp
    next
      case (Cons a u')
      with uv have "cs = u' @ v" by simp
      with uv(2) Cons.IH have "glob_match (CHR ''*'' # ps) cs" by blast
      then show ?thesis by simp
    qed
  qed
qed

lemma glob_wild_literal:
  assumes "CHR ''*'' \<notin> set lit"
  shows "glob_match (CHR ''*'' # lit @ [CHR ''*'']) s \<longleftrightarrow> sublist lit s"
proof -
  have "glob_match (CHR ''*'' # lit @ [CHR ''*'']) s \<longleftrightarrow>
        (\<exists>u v. s = u @ v \<and> (\<exists>t. v = lit @ t))"
    using assms by (simp add: glob_star [of "lit @ [CHR ''*'']"] glob_literal glob_star_all)
  also have "\<dots> \<longleftrightarrow> sublist lit s"
    by (auto simp: sublist_def)
  finally show ?thesis .
qed

lemma Match_patterns: "MatchStringInList patterns key \<longleftrightarrow> contains_reserved key"
proof -
  have a: "glob_match ''*kubernetes.io*'' key \<longleftrightarrow> sublist ''kubernetes.io'' key"
    using glob_wild_literal [of "''kubernetes.io''" key] by simp
  have b: "glob_match ''*k8s.io*'' key \<longleftrightarrow> sublist ''k8s.io'' key"
    using glob_wild_literal [of "''k8s.io''" key] by simp
  have c: "glob_match ''*openshift.io*'' key \<longleftrightarrow> sublist ''openshift.io'' key"
    using glob_wild_literal [of "''openshift.io''" key] by simp
  show ?thesis
    unfolding MatchStringInList_def patterns_def contains_reserved_def reserved_names_def
    using a b c by simp
qed

lemma addKubernetesData_table:
  "distinct (map fst live) \<Longrightarrow>
   addKubernetesData (Some m) live =
     Inr (Some (\<lambda>k. case m k of Some v \<Rightarrow> Some v
                    | None \<Rightarrow> if contains_reserved k then map_of live k else None))"
proof (induction live arbitrary: m)
  case Nil
  have "m = (\<lambda>k. case m k of Some v \<Rightarrow> Some v
                    | None \<Rightarrow> if contains_reserved k then map_of [] k else None)"
    by (rule ext) (simp split: option.splits)
  then show ?case by simp
next
  case (Cons e live)
  obtain key val where e: "e = (key, val)" by (cases e)
  from Cons.prems e have d: "distinct (map fst live)" and nk: "map_of live key = None"
    by (auto simp: map_of_eq_None_iff)
  show ?case
  proof (cases "contains_reserved key \<and> m key = None")
    case True
    then have "addKubernetesData (Some m) (e # live) = addKubernetesData (Some (m(key \<mapsto> val))) live"
      by (simp add: e Match_patterns)
    also have "\<dots> = Inr (Some (\<lambda>k. case (m(key \<mapsto> val)) k of Some v \<Rightarrow> Some v
                    | None \<Rightarrow> if contains_reserved k then map_of live k else None))"
      by (rule Cons.IH [OF d])
    also have "(\<lambda>k. case (m(key \<mapsto> val)) k of Some v \<Rightarrow> Some v
                    | None \<Rightarrow> if contains_reserved k then map_of live k else None) =
               (\<lambda>k. case m k of Some v \<Rightarrow> Some v
                    | None \<Rightarrow> if contains_reserved k then map_of (e # live) k else None)"
      using True by (auto simp: e fun_eq_iff split: option.splits)
    finally show ?thesis .
  next
    case False
    then have "addKubernetesData (Some m) (e # live) = addKubernetesData (Some m) live"
      by (auto simp: e Match_patterns split: option.splits)
    also have "\<dots> = Inr (Some (\<lambda>k. case m k of Some v \<Rightarrow> Some v
                    | None \<Rightarrow> if contains_reserved k then map_of live k else None))"
      by (rule Cons.IH [OF d])
    also have "(\<lambda>k. case m k of Some v \<Rightarrow> Some v
                    | None \<Rightarrow> if contains_reserved k then map_of live k else None) =
               (\<lambda>k. case m k of Some v \<Rightarrow> Some v
                    | None \<Rightarrow> if contains_reserved k then map_of (e # live) k else None)"
      using False nk by (auto simp: e fun_eq_iff split: option.splits)
    finally show ?thesis .
  qed
qed

lemma addKubernetesData_nil:
  "addKubernetesData None live =
     (if list_ex (\<lambda>e. contains_reserved (fst e)) live then Inl NilMapWrite else Inr None)"
  by (induction live) (auto simp: Match_patterns)

text \<open>
  C10 (as stated) fails: a key is copied as soon as a reserved name occurs anywhere in
  it. The key below does not start with a reserved name (its prefix part is
  \<^verbatim>\<open>example.com\<close>), yet it is copied into the desired map.
\<close>

theorem addKubernetesData_prefix_counterexample:
  "addKubernetesData (Some Map.empty) [(''example.com/about-k8s.io'', ''x'')]
      = Inr (Some [''example.com/about-k8s.io'' \<mapsto> ''x''])
   \<and> \<not> has_reserved_prefix ''example.com/about-k8s.io''"
  by (simp add: MatchStringInList_def patterns_def has_reserved_prefix_def reserved_names_def)

text \<open>
  C10 (amended). For every live map and every desired map, the merge copies a live entry
  exactly when its key contains a reserved name (\<^verbatim>\<open>kubernetes.io\<close>, \<^verbatim>\<open>k8s.io\<close>,
  \<^verbatim>\<open>openshift.io\<close>) anywhere in it and the key is absent from the desired map. A key
  already present in the desired map keeps its desired value, and live keys without a
  reserved name are never copied. When the desired map is nil, nothing is copied: the
  first live key containing a reserved name makes the write panic.
\<close>

theorem addKubernetesData_merge:
  assumes "distinct (map fst live)"
  shows "addKubernetesData (Some m) live =
           Inr (Some (\<lambda>k. case m k of Some v \<Rightarrow> Some v
                          | None \<Rightarrow> if contains_reserved k then map_of live k else None))
       \<and> addKubernetesData None live =
           (if list_ex (\<lambda>e. contains_reserved (fst e)) live then Inl NilMapWrite else Inr None)"
  using assms by (simp add: addKubernetesData_table addKubernetesData_nil)

theorem addKubernetesData_merge_witness:
  "distinct (map fst [(''kubernetes.io/arch'', ''amd64''), (''team'', ''a'')])
   \<and> addKubernetesData (Some [''team'' \<mapsto> ''b''])
         [(''kubernetes.io/arch'', ''amd64''), (''team'', ''a'')] =
       Inr (Some (\<lambda>k. case [''team'' \<mapsto> ''b''] k of Some v \<Rightarrow> Some v
                      | None \<Rightarrow> if contains_reserved k
                                then map_of [(''kubernetes.io/arch'', ''amd64''), (''team'', ''a'')] k
                                else None))"
  using addKubernetesData_merge
    [of "[(''kubernetes.io/arch'', ''amd64''), (''team'', ''a'')]" "[''team'' \<mapsto> ''b'']"]
  by simp

section \<open>Properties of the argument merge\<close>























section \<open>Properties of the Redis Deployment update decision\<close>

lemma join_snoc:
  "join sep (xs @ [x]) = (if xs = [] then x else join sep xs @ sep @ x)"
  by (induction sep xs rule: join.induct) auto

lemma tracks_note:
  assumes "tracks st fs"
  shows "tracks (note_change name st) (fs @ [name])"
  using assms by (simp add: tracks_def note_change_def join_snoc)

lemma tracks_step:
  assumes "tracks st fs" "changed st' = changed st" "explanation st' = explanation st"
  shows "tracks (if b then note_change name st' else st) (fs @ named_if b name)"
proof (cases b)
  case True
  from assms have "tracks st' fs" by (simp add: tracks_def)
  from tracks_note [OF this] True show ?thesis by (simp add: named_if_def)
next
  case False
  with assms(1) show ?thesis by (simp add: named_if_def)
qed

lemma kept_note [simp]: "fields_kept k c0 e (note_change name st) = fields_kept k c0 e st"
  by (simp add: fields_kept_def note_change_def container0_def)

lemma kept_weaken: "fields_kept k c0 e st \<Longrightarrow> k \<le> k' \<Longrightarrow> fields_kept k' c0 e st"
  by (simp add: fields_kept_def)

lemma node_placement:
  assumes "tracks st fs" "fields_kept 3 c0 e st"
  shows "tracks (updateNodePlacementForDeployment deploy st)
           (fs @ named_if (NodeSelector e \<noteq> NodeSelector deploy) ''node selector''
               @ named_if (Tolerations e \<noteq> Tolerations deploy) ''tolerations'')
       \<and> fields_kept 5 c0 e (updateNodePlacementForDeployment deploy st)"
proof -
  define st1 where "st1 = (if NodeSelector (obj st) \<noteq> NodeSelector deploy
                 then note_change ''node selector''
                        (st\<lparr>obj := (obj st)\<lparr>NodeSelector := NodeSelector deploy\<rparr>\<rparr>)
                 else st)"
  have n: "NodeSelector (obj st) = NodeSelector e" and t: "Tolerations (obj st) = Tolerations e"
    using assms(2) by (simp_all add: fields_kept_def)
  have t1: "tracks st1 (fs @ named_if (NodeSelector e \<noteq> NodeSelector deploy) ''node selector'')"
    unfolding st1_def n by (rule tracks_step [OF assms(1)]) simp_all
  have k1: "fields_kept 4 c0 e st1"
    using assms(2) by (simp add: st1_def) (simp add: fields_kept_def container0_def)
  then have t': "Tolerations (obj st1) = Tolerations e" by (simp add: fields_kept_def)
  define st2 where "st2 = (if Tolerations (obj st1) \<noteq> Tolerations deploy
         then note_change ''tolerations''
                (st1\<lparr>obj := (obj st1)\<lparr>Tolerations := Tolerations deploy\<rparr>\<rparr>)
         else st1)"
  have t2: "tracks st2 ((fs @ named_if (NodeSelector e \<noteq> NodeSelector deploy) ''node selector'')
               @ named_if (Tolerations e \<noteq> Tolerations deploy) ''tolerations'')"
    unfolding st2_def t' by (rule tracks_step [OF t1]) simp_all
  have k2: "fields_kept 5 c0 e st2"
    using k1 by (simp add: st2_def) (simp add: fields_kept_def container0_def)
  have "updateNodePlacementForDeployment deploy st = st2"
    by (simp add: updateNodePlacementForDeployment_def st1_def st2_def Let_def)
  with t2 k2 show ?thesis by simp
qed

lemma compare_image_ok:
  assumes "Containers e = c0 # cs"
  shows "tracks (compare_image now img c0 \<lparr>obj = e, changed = False, explanation = ''''\<rparr>)
           (named_if (Image c0 \<noteq> img) ''container image'')
       \<and> fields_kept 2 c0 e
           (compare_image now img c0 \<lparr>obj = e, changed = False, explanation = ''''\<rparr>)"
  using assms
  by (simp add: compare_image_def tracks_def named_if_def fields_kept_def container0_def
      set_container0_def)

lemma kept_set_container0:
  assumes "fields_kept k c0 e st" "k < k'"
    "\<And>c. k' \<le> 2 \<Longrightarrow> ImagePullPolicy (upd c) = ImagePullPolicy c"
    "\<And>c. k' \<le> 5 \<Longrightarrow> Args (upd c) = Args c"
    "\<And>c. k' \<le> 6 \<Longrightarrow> Env (upd c) = Env c"
    "\<And>c. k' \<le> 7 \<Longrightarrow> Resources (upd c) = Resources c"
    "\<And>c. k' \<le> 8 \<Longrightarrow> SecurityContext (upd c) = SecurityContext c"
  shows "fields_kept k' c0 e (set_container0 upd st)"
  using assms
  by (auto simp: fields_kept_def container0_def set_container0_def split: list.splits)

lemma container_step:
  assumes "tracks st fs"
  shows "tracks (if b then note_change name (set_container0 upd st) else st) (fs @ named_if b name)"
  by (rule tracks_step [OF assms]) (simp_all add: set_container0_def)

lemma compare_pull_policy_ok:
  assumes "tracks st fs" "fields_kept 2 c0 e st"
  shows "tracks (compare_pull_policy pol c0 st)
           (fs @ named_if (ImagePullPolicy c0 \<noteq> pol) ''image pull policy'')
       \<and> fields_kept 3 c0 e (compare_pull_policy pol c0 st)"
proof
  show "tracks (compare_pull_policy pol c0 st)
           (fs @ named_if (ImagePullPolicy c0 \<noteq> pol) ''image pull policy'')"
    unfolding compare_pull_policy_def by (rule container_step [OF assms(1)])
  have "fields_kept 3 c0 e (set_container0 (\<lambda>c. c\<lparr>ImagePullPolicy := pol\<rparr>) st)"
    by (rule kept_set_container0 [OF assms(2)]) simp_all
  with kept_weaken [OF assms(2), of 3]
  show "fields_kept 3 c0 e (compare_pull_policy pol c0 st)"
    by (simp add: compare_pull_policy_def)
qed

lemma compare_args_ok:
  assumes "tracks st fs" "fields_kept 5 c0 e st"
  shows "tracks (compare_args c0 d0 st) (fs @ named_if (Args c0 \<noteq> Args d0) ''container args'')
       \<and> fields_kept 6 c0 e (compare_args c0 d0 st)"
proof
  have a: "Args (container0 c0 st) = Args c0" using assms(2) by (simp add: fields_kept_def)
  have "tracks (compare_args c0 d0 st) (fs @ named_if (Args d0 \<noteq> Args c0) ''container args'')"
    unfolding compare_args_def a by (rule container_step [OF assms(1)])
  then show "tracks (compare_args c0 d0 st) (fs @ named_if (Args c0 \<noteq> Args d0) ''container args'')"
    by (simp add: eq_commute [of "Args d0"])
  have "fields_kept 6 c0 e (set_container0 (\<lambda>c. c\<lparr>Args := Args d0\<rparr>) st)"
    by (rule kept_set_container0 [OF assms(2)]) simp_all
  with kept_weaken [OF assms(2), of 6]
  show "fields_kept 6 c0 e (compare_args c0 d0 st)"
    by (simp add: compare_args_def)
qed

lemma compare_env_ok:
  assumes "tracks st fs" "fields_kept 6 c0 e st"
  shows "tracks (compare_env c0 d0 st) (fs @ named_if (Env c0 \<noteq> Env d0) ''container env'')
       \<and> fields_kept 7 c0 e (compare_env c0 d0 st)"
proof
  have a: "Env (container0 c0 st) = Env c0" using assms(2) by (simp add: fields_kept_def)
  show "tracks (compare_env c0 d0 st) (fs @ named_if (Env c0 \<noteq> Env d0) ''container env'')"
    unfolding compare_env_def a by (rule container_step [OF assms(1)])
  have "fields_kept 7 c0 e (set_container0 (\<lambda>c. c\<lparr>Env := Env d0\<rparr>) st)"
    by (rule kept_set_container0 [OF assms(2)]) simp_all
  with kept_weaken [OF assms(2), of 7]
  show "fields_kept 7 c0 e (compare_env c0 d0 st)"
    by (simp add: compare_env_def)
qed

lemma compare_resources_ok:
  assumes "tracks st fs" "fields_kept 7 c0 e st"
  shows "tracks (compare_resources c0 d0 st)
           (fs @ named_if (Resources c0 \<noteq> Resources d0) ''container resources'')
       \<and> fields_kept 8 c0 e (compare_resources c0 d0 st)"
proof
  have a: "Resources (container0 c0 st) = Resources c0"
    using assms(2) by (simp add: fields_kept_def)
  have "tracks (compare_resources c0 d0 st)
           (fs @ named_if (Resources d0 \<noteq> Resources c0) ''container resources'')"
    unfolding compare_resources_def a by (rule container_step [OF assms(1)])
  then show "tracks (compare_resources c0 d0 st)
           (fs @ named_if (Resources c0 \<noteq> Resources d0) ''container resources'')"
    by (simp add: eq_commute [of "Resources d0"])
  have "fields_kept 8 c0 e (set_container0 (\<lambda>c. c\<lparr>Resources := Resources d0\<rparr>) st)"
    by (rule kept_set_container0 [OF assms(2)]) simp_all
  with kept_weaken [OF assms(2), of 8]
  show "fields_kept 8 c0 e (compare_resources c0 d0 st)"
    by (simp add: compare_resources_def)
qed

lemma compare_security_context_ok:
  assumes "tracks st fs" "fields_kept 8 c0 e st"
  shows "tracks (compare_security_context c0 d0 st)
           (fs @ named_if (SecurityContext c0 \<noteq> SecurityContext d0) ''container security context'')
       \<and> fields_kept 9 c0 e (compare_security_context c0 d0 st)"
proof
  have a: "SecurityContext (container0 c0 st) = SecurityContext c0"
    using assms(2) by (simp add: fields_kept_def)
  have "tracks (compare_security_context c0 d0 st)
           (fs @ named_if (SecurityContext d0 \<noteq> SecurityContext c0) ''container security context'')"
    unfolding compare_security_context_def a by (rule container_step [OF assms(1)])
  then show "tracks (compare_security_context c0 d0 st)
           (fs @ named_if (SecurityContext c0 \<noteq> SecurityContext d0) ''container security context'')"
    by (simp add: eq_commute [of "SecurityContext d0"])
  have "fields_kept 9 c0 e (set_container0 (\<lambda>c. c\<lparr>SecurityContext := SecurityContext d0\<rparr>) st)"
    by (rule kept_set_container0 [OF assms(2)]) simp_all
  with kept_weaken [OF assms(2), of 9]
  show "fields_kept 9 c0 e (compare_security_context c0 d0 st)"
    by (simp add: compare_security_context_def)
qed

lemma compare_pod_security_context_ok:
  assumes "tracks st fs" "fields_kept 9 c0 e st"
  shows "tracks (compare_pod_security_context deploy st)
           (fs @ named_if (PodSecurityContext e \<noteq> PodSecurityContext deploy) ''pod security context'')
       \<and> fields_kept 10 c0 e (compare_pod_security_context deploy st)"
proof
  have a: "PodSecurityContext (obj st) = PodSecurityContext e"
    using assms(2) by (simp add: fields_kept_def)
  have "tracks (compare_pod_security_context deploy st)
           (fs @ named_if (PodSecurityContext deploy \<noteq> PodSecurityContext e) ''pod security context'')"
    unfolding compare_pod_security_context_def a by (rule tracks_step [OF assms(1)]) simp_all
  then show "tracks (compare_pod_security_context deploy st)
           (fs @ named_if (PodSecurityContext e \<noteq> PodSecurityContext deploy) ''pod security context'')"
    by (simp add: eq_commute [of "PodSecurityContext deploy"])
  show "fields_kept 10 c0 e (compare_pod_security_context deploy st)"
    using assms(2) by (simp add: compare_pod_security_context_def)
      (simp add: fields_kept_def container0_def)
qed

lemma compare_service_account_ok:
  assumes "tracks st fs" "fields_kept 10 c0 e st"
  shows "tracks (compare_service_account deploy st)
           (fs @ named_if (ServiceAccountName e \<noteq> ServiceAccountName deploy) ''serviceAccountName'')"
proof -
  have a: "ServiceAccountName (obj st) = ServiceAccountName e"
    using assms(2) by (simp add: fields_kept_def)
  have "tracks (compare_service_account deploy st)
           (fs @ named_if (ServiceAccountName deploy \<noteq> ServiceAccountName e) ''serviceAccountName'')"
    unfolding compare_service_account_def a by (rule tracks_step [OF assms(1)]) simp_all
  then show ?thesis by (simp add: eq_commute [of "ServiceAccountName deploy"])
qed

lemma redis_deployment_diff_tracks:
  assumes ce: "Containers existingDeploy = c0 # cs" and cd: "Containers deploy = d0 # ds"
    and lbl: "Image c0 = redisImage \<or> TemplateLabels existingDeploy \<noteq> None"
  shows "\<exists>st. redis_deployment_diff now redisImage imagePullPolicy existingDeploy deploy = Inr st
           \<and> tracks st (changed_fields redisImage imagePullPolicy existingDeploy deploy)"
proof -
  note s1 = compare_image_ok [OF ce, of now redisImage]
  note s2 = compare_pull_policy_ok [OF conjunct1 [OF s1] conjunct2 [OF s1],
      of "getImagePullPolicy imagePullPolicy"]
  note s3 = node_placement [OF conjunct1 [OF s2] conjunct2 [OF s2], of deploy]
  note s4 = compare_args_ok [OF conjunct1 [OF s3] conjunct2 [OF s3], of d0]
  note s5 = compare_env_ok [OF conjunct1 [OF s4] conjunct2 [OF s4], of d0]
  note s6 = compare_resources_ok [OF conjunct1 [OF s5] conjunct2 [OF s5], of d0]
  note s7 = compare_security_context_ok [OF conjunct1 [OF s6] conjunct2 [OF s6], of d0]
  note s8 = compare_pod_security_context_ok [OF conjunct1 [OF s7] conjunct2 [OF s7], of deploy]
  note s9 = compare_service_account_ok [OF conjunct1 [OF s8] conjunct2 [OF s8], of deploy]
  have run: "redis_deployment_diff now redisImage imagePullPolicy existingDeploy deploy = Inr
               (compare_service_account deploy
               (compare_pod_security_context deploy
               (compare_security_context c0 d0
               (compare_resources c0 d0
               (compare_env c0 d0
               (compare_args c0 d0
               (updateNodePlacementForDeployment deploy
               (compare_pull_policy (getImagePullPolicy imagePullPolicy) c0
               (compare_image now redisImage c0
                  \<lparr>obj = existingDeploy, changed = False, explanation = ''''\<rparr>)))))))))"
    using lbl by (auto simp: redis_deployment_diff_def ce cd)
  have "changed_fields redisImage imagePullPolicy existingDeploy deploy =
      (((((((named_if (Image c0 \<noteq> redisImage) ''container image''
      @ named_if (ImagePullPolicy c0 \<noteq> getImagePullPolicy imagePullPolicy) ''image pull policy'')
      @ named_if (NodeSelector existingDeploy \<noteq> NodeSelector deploy) ''node selector''
      @ named_if (Tolerations existingDeploy \<noteq> Tolerations deploy) ''tolerations'')
      @ named_if (Args c0 \<noteq> Args d0) ''container args'')
      @ named_if (Env c0 \<noteq> Env d0) ''container env'')
      @ named_if (Resources c0 \<noteq> Resources d0) ''container resources'')
      @ named_if (SecurityContext c0 \<noteq> SecurityContext d0) ''container security context'')
      @ named_if (PodSecurityContext existingDeploy \<noteq> PodSecurityContext deploy) ''pod security context'')
      @ named_if (ServiceAccountName existingDeploy \<noteq> ServiceAccountName deploy) ''serviceAccountName''"
    by (simp add: changed_fields_def ce cd)
  with s9 run show ?thesis by simp
qed

text \<open>Each comparison leaves the object as an unconditional assignment of the desired
  value would: where the values agree already, the assignment changes nothing.\<close>

lemma same_containers: "Containers d = xs \<Longrightarrow> d\<lparr>Containers := xs\<rparr> = d"
  by (cases d) simp

lemma obj_set_container0:
  "Containers (obj st) = c # cs \<Longrightarrow>
     obj (set_container0 upd st) = (obj st)\<lparr>Containers := upd c # cs\<rparr>"
  by (simp add: set_container0_def)

lemma obj_note_change [simp]: "obj (note_change name st) = obj st"
  by (simp add: note_change_def)

lemma obj_compare_image:
  "obj (compare_image now img c0 \<lparr>obj = e, changed = False, explanation = ''''\<rparr>) =
     (if Image c0 \<noteq> img
      then (obj (set_container0 (\<lambda>c. c\<lparr>Image := img\<rparr>)
               \<lparr>obj = e, changed = False, explanation = ''''\<rparr>))
             \<lparr>TemplateLabels := map_option (\<lambda>m. m(''image.upgraded'' \<mapsto> now)) (TemplateLabels e)\<rparr>
      else e)"
  by (simp add: compare_image_def)

lemma obj_compare_pull_policy:
  assumes "Containers (obj st) = c # cs" "ImagePullPolicy c = ImagePullPolicy c0"
  shows "obj (compare_pull_policy pol c0 st)
           = (obj st)\<lparr>Containers := c\<lparr>ImagePullPolicy := pol\<rparr> # cs\<rparr>"
proof (cases "ImagePullPolicy c0 = pol")
  case True
  with assms(2) have "c\<lparr>ImagePullPolicy := pol\<rparr> = c" by simp
  with True assms(1) show ?thesis by (simp add: compare_pull_policy_def same_containers)
next
  case False
  with assms(1) show ?thesis by (simp add: compare_pull_policy_def obj_set_container0)
qed

lemma obj_node_placement:
  "obj (updateNodePlacementForDeployment deploy st)
     = (obj st)\<lparr>NodeSelector := NodeSelector deploy, Tolerations := Tolerations deploy\<rparr>"
  by (simp add: updateNodePlacementForDeployment_def Let_def)

lemma obj_compare_args:
  assumes "Containers (obj st) = c # cs"
  shows "obj (compare_args c0 d0 st) = (obj st)\<lparr>Containers := c\<lparr>Args := Args d0\<rparr> # cs\<rparr>"
proof (cases "Args d0 = Args c")
  case True
  then have "c\<lparr>Args := Args d0\<rparr> = c" by simp
  with True assms show ?thesis
    by (simp add: compare_args_def container0_def same_containers)
next
  case False
  with assms show ?thesis by (simp add: compare_args_def container0_def obj_set_container0)
qed

lemma obj_compare_env:
  assumes "Containers (obj st) = c # cs"
  shows "obj (compare_env c0 d0 st) = (obj st)\<lparr>Containers := c\<lparr>Env := Env d0\<rparr> # cs\<rparr>"
proof (cases "Env c = Env d0")
  case True
  then have "c\<lparr>Env := Env d0\<rparr> = c" by simp
  with True assms show ?thesis
    by (simp add: compare_env_def container0_def same_containers)
next
  case False
  with assms show ?thesis by (simp add: compare_env_def container0_def obj_set_container0)
qed

lemma obj_compare_resources:
  assumes "Containers (obj st) = c # cs"
  shows "obj (compare_resources c0 d0 st)
           = (obj st)\<lparr>Containers := c\<lparr>Resources := Resources d0\<rparr> # cs\<rparr>"
proof (cases "Resources d0 = Resources c")
  case True
  then have "c\<lparr>Resources := Resources d0\<rparr> = c" by simp
  with True assms show ?thesis
    by (simp add: compare_resources_def container0_def same_containers)
next
  case False
  with assms show ?thesis
    by (simp add: compare_resources_def container0_def obj_set_container0)
qed

lemma obj_compare_security_context:
  assumes "Containers (obj st) = c # cs"
  shows "obj (compare_security_context c0 d0 st)
           = (obj st)\<lparr>Containers := c\<lparr>SecurityContext := SecurityContext d0\<rparr> # cs\<rparr>"
proof (cases "SecurityContext d0 = SecurityContext c")
  case True
  then have "c\<lparr>SecurityContext := SecurityContext d0\<rparr> = c" by simp
  with True assms show ?thesis
    by (simp add: compare_security_context_def container0_def same_containers)
next
  case False
  with assms show ?thesis
    by (simp add: compare_security_context_def container0_def obj_set_container0)
qed

lemma obj_compare_pod_security_context:
  "obj (compare_pod_security_context deploy st)
     = (obj st)\<lparr>PodSecurityContext := PodSecurityContext deploy\<rparr>"
  by (simp add: compare_pod_security_context_def)

lemma obj_compare_service_account:
  "obj (compare_service_account deploy st)
     = (obj st)\<lparr>ServiceAccountName := ServiceAccountName deploy\<rparr>"
  by (simp add: compare_service_account_def)

lemma redis_deployment_diff_applies:
  assumes ce: "Containers existingDeploy = c0 # cs" and cd: "Containers deploy = d0 # ds"
    and run: "redis_deployment_diff now redisImage imagePullPolicy existingDeploy deploy = Inr st"
  shows "obj st = applied_changes now redisImage imagePullPolicy existingDeploy deploy"
proof -
  let ?pol = "getImagePullPolicy imagePullPolicy"
  let ?st0 = "\<lparr>obj = existingDeploy, changed = False, explanation = ''''\<rparr>"
  define st1 where "st1 = compare_image now redisImage c0 ?st0"
  define st2 where "st2 = compare_pull_policy ?pol c0 st1"
  define st3 where "st3 = updateNodePlacementForDeployment deploy st2"
  define st4 where "st4 = compare_args c0 d0 st3"
  define st5 where "st5 = compare_env c0 d0 st4"
  define st6 where "st6 = compare_resources c0 d0 st5"
  define st7 where "st7 = compare_security_context c0 d0 st6"
  define st8 where "st8 = compare_pod_security_context deploy st7"
  define st9 where "st9 = compare_service_account deploy st8"
  define lbl where "lbl = (if Image c0 \<noteq> redisImage
                then map_option (\<lambda>m. m(''image.upgraded'' \<mapsto> now)) (TemplateLabels existingDeploy)
                else TemplateLabels existingDeploy)"
  from run have st: "st = st9"
    by (simp add: redis_deployment_diff_def ce cd st1_def st2_def st3_def st4_def st5_def
        st6_def st7_def st8_def st9_def split: if_splits)
  have o1: "obj st1 = existingDeploy\<lparr>Containers := c0\<lparr>Image := redisImage\<rparr> # cs,
                                     TemplateLabels := lbl\<rparr>"
  proof (cases "Image c0 = redisImage")
    case True
    then have "c0\<lparr>Image := redisImage\<rparr> = c0" by auto
    with True ce show ?thesis
      by (simp add: st1_def obj_compare_image lbl_def same_containers)
  next
    case False
    with ce show ?thesis
      by (simp add: st1_def obj_compare_image lbl_def obj_set_container0)
  qed
  have o2: "obj st2 = existingDeploy
      \<lparr>Containers := c0\<lparr>Image := redisImage, ImagePullPolicy := ?pol\<rparr> # cs,
       TemplateLabels := lbl\<rparr>"
    unfolding st2_def
    by (subst obj_compare_pull_policy [where c = "c0\<lparr>Image := redisImage\<rparr>" and cs = cs])
       (simp_all add: o1)
  have o3: "obj st3 = existingDeploy
      \<lparr>Containers := c0\<lparr>Image := redisImage, ImagePullPolicy := ?pol\<rparr> # cs,
       TemplateLabels := lbl, NodeSelector := NodeSelector deploy,
       Tolerations := Tolerations deploy\<rparr>"
    by (simp add: st3_def obj_node_placement o2)
  have o4: "obj st4 = existingDeploy
      \<lparr>Containers := c0\<lparr>Image := redisImage, ImagePullPolicy := ?pol, Args := Args d0\<rparr> # cs,
       TemplateLabels := lbl, NodeSelector := NodeSelector deploy,
       Tolerations := Tolerations deploy\<rparr>"
    unfolding st4_def
    by (subst obj_compare_args
          [where c = "c0\<lparr>Image := redisImage, ImagePullPolicy := ?pol\<rparr>" and cs = cs])
       (simp_all add: o3)
  have o5: "obj st5 = existingDeploy
      \<lparr>Containers := c0\<lparr>Image := redisImage, ImagePullPolicy := ?pol, Args := Args d0,
                         Env := Env d0\<rparr> # cs,
       TemplateLabels := lbl, NodeSelector := NodeSelector deploy,
       Tolerations := Tolerations deploy\<rparr>"
    unfolding st5_def
    by (subst obj_compare_env
          [where c = "c0\<lparr>Image := redisImage, ImagePullPolicy := ?pol, Args := Args d0\<rparr>"
             and cs = cs])
       (simp_all add: o4)
  have o6: "obj st6 = existingDeploy
      \<lparr>Containers := c0\<lparr>Image := redisImage, ImagePullPolicy := ?pol, Args := Args d0,
                         Env := Env d0, Resources := Resources d0\<rparr> # cs,
       TemplateLabels := lbl, NodeSelector := NodeSelector deploy,
       Tolerations := Tolerations deploy\<rparr>"
    unfolding st6_def
    by (subst obj_compare_resources
          [where c = "c0\<lparr>Image := redisImage, ImagePullPolicy := ?pol, Args := Args d0,
                         Env := Env d0\<rparr>" and cs = cs])
       (simp_all add: o5)
  have o7: "obj st7 = existingDeploy
      \<lparr>Containers := c0\<lparr>Image := redisImage, ImagePullPolicy := ?pol, Args := Args d0,
                         Env := Env d0, Resources := Resources d0,
                         SecurityContext := SecurityContext d0\<rparr> # cs,
       TemplateLabels := lbl, NodeSelector := NodeSelector deploy,
       Tolerations := Tolerations deploy\<rparr>"
    unfolding st7_def
    by (subst obj_compare_security_context
          [where c = "c0\<lparr>Image := redisImage, ImagePullPolicy := ?pol, Args := Args d0,
                         Env := Env d0, Resources := Resources d0\<rparr>" and cs = cs])
       (simp_all add: o6)
  have o9: "obj st9 = existingDeploy
      \<lparr>Containers := c0\<lparr>Image := redisImage, ImagePullPolicy := ?pol, Args := Args d0,
                         Env := Env d0, Resources := Resources d0,
                         SecurityContext := SecurityContext d0\<rparr> # cs,
       TemplateLabels := lbl, NodeSelector := NodeSelector deploy,
       Tolerations := Tolerations deploy,
       PodSecurityContext := PodSecurityContext deploy,
       ServiceAccountName := ServiceAccountName deploy\<rparr>"
    by (simp add: st9_def st8_def obj_compare_service_account
        obj_compare_pod_security_context o7)
  show ?thesis
    unfolding st o9 by (simp add: applied_changes_def ce cd lbl_def)
qed

text \<open>
  C9. For an existing Redis Deployment that is to be kept (Redis enabled, not remote, HA
  off), all changed operator-managed fields are applied through one update call, logged
  with the comma-joined names of the changed fields in comparison order; when no field
  changed, no call is made at all. The object of that call is the live one with the ten
  compared fields at their desired values, and with the upgrade label when the image
  changed. (The hypotheses exclude the two panics of the block: a
  live object without containers, and a nil template-label map when the image changed.)
\<close>

theorem ReconcileRedisDeployment_single_update:
  assumes "Containers existingDeploy = c0 # cs" and "Containers deploy = d0 # ds"
    and "Image c0 = redisImage \<or> TemplateLabels existingDeploy \<noteq> None"
    and "redisEnabled" and "\<not> redisRemote" and "\<not> haEnabled"
  shows "\<exists>r. ReconcileRedisDeployment redisEnabled redisRemote haEnabled now redisImage
              imagePullPolicy client_err deploy (Some existingDeploy) = Inr r
           \<and> (if changed_fields redisImage imagePullPolicy existingDeploy deploy = []
              then calls_made r = [] \<and> update_log r = [] \<and> returned r = None
              else calls_made r =
                     [ClientUpdate (applied_changes now redisImage imagePullPolicy
                                      existingDeploy deploy)]
                 \<and> update_log r =
                     [join '', '' (changed_fields redisImage imagePullPolicy existingDeploy deploy)]
                 \<and> returned r = client_err)"
proof -
  from redis_deployment_diff_tracks [OF assms(1-3), of now imagePullPolicy]
  obtain st where
    d: "redis_deployment_diff now redisImage imagePullPolicy existingDeploy deploy = Inr st"
    and t: "tracks st (changed_fields redisImage imagePullPolicy existingDeploy deploy)"
    by blast
  note o = redis_deployment_diff_applies [OF assms(1,2) d]
  show ?thesis
  proof (cases "changed st")
    case True
    with t d o assms(4-6) show ?thesis
      by (simp add: ReconcileRedisDeployment_def tracks_def)
  next
    case False
    with t d assms(4-6) show ?thesis
      by (simp add: ReconcileRedisDeployment_def tracks_def)
  qed
qed

theorem ReconcileRedisDeployment_single_update_witness:
  "\<exists>r. ReconcileRedisDeployment True False False ''01022006-150406-UTC'' ''redis:7'' '''' None
          \<lparr>Containers = [\<lparr>Image = ''redis:7'', ImagePullPolicy = ''Always'', Args = [''--save'', ''''],
                           Env = 1, Resources = 1, SecurityContext = 1\<rparr>],
           NodeSelector = 0, Tolerations = 0, PodSecurityContext = 1,
           ServiceAccountName = ''a-argocd-redis'', TemplateLabels = Some Map.empty\<rparr>
          (Some \<lparr>Containers = [\<lparr>Image = ''redis:6'', ImagePullPolicy = ''Always'', Args = [],
                           Env = 1, Resources = 0, SecurityContext = 1\<rparr>],
           NodeSelector = 0, Tolerations = 0, PodSecurityContext = (1::nat),
           ServiceAccountName = ''a-argocd-redis'', TemplateLabels = Some Map.empty\<rparr>) = Inr r
     \<and> calls_made r =
           [ClientUpdate
              \<lparr>Containers = [\<lparr>Image = ''redis:7'', ImagePullPolicy = ''Always'',
                               Args = [''--save'', ''''], Env = 1, Resources = 1,
                               SecurityContext = 1\<rparr>],
               NodeSelector = 0, Tolerations = 0, PodSecurityContext = 1,
               ServiceAccountName = ''a-argocd-redis'',
               TemplateLabels = Some [''image.upgraded'' \<mapsto> ''01022006-150406-UTC'']\<rparr>]
     \<and> update_log r = [''container image, container args, container resources'']
     \<and> returned r = None"
  using ReconcileRedisDeployment_single_update
    [of "\<lparr>Containers = [\<lparr>Image = ''redis:6'', ImagePullPolicy = ''Always'', Args = [],
                           Env = 1, Resources = 0, SecurityContext = 1\<rparr>],
           NodeSelector = 0, Tolerations = 0, PodSecurityContext = (1::nat),
           ServiceAccountName = ''a-argocd-redis'', TemplateLabels = Some Map.empty\<rparr>"
        "\<lparr>Image = ''redis:6'', ImagePullPolicy = ''Always'', Args = [],
                           Env = 1, Resources = 0, SecurityContext = 1\<rparr>" "[]"
        "\<lparr>Containers = [\<lparr>Image = ''redis:7'', ImagePullPolicy = ''Always'', Args = [''--save'', ''''],
                           Env = 1, Resources = 1, SecurityContext = 1\<rparr>],
           NodeSelector = 0, Tolerations = 0, PodSecurityContext = 1,
           ServiceAccountName = ''a-argocd-redis'', TemplateLabels = Some Map.empty\<rparr>"
        "\<lparr>Image = ''redis:7'', ImagePullPolicy = ''Always'', Args = [''--save'', ''''],
                           Env = 1, Resources = 1, SecurityContext = 1\<rparr>" "[]"
        "''redis:7''" True False False "''01022006-150406-UTC''" "''''" None]
  by (simp add: changed_fields_def named_if_def getImagePullPolicy_def applied_changes_def)

section \<open>Properties of the ClusterArgoCD controller\<close>

subsection \<open>The client primitives\<close>

lemma client_get_run:
  assumes "client_get flt k ns name find_obj w = (r, w')"
  shows "trace w' = trace w @ [Call VGet k ns name]"
    and "store w' = store w"
    and "TokenRenewalTimers w' = TokenRenewalTimers w"
    and "flt (length (trace w)) \<Longrightarrow> r = Inl (ClientError (length (trace w)))"
    and "\<not> flt (length (trace w)) \<Longrightarrow>
           r = (case find_obj (store w) of None \<Rightarrow> Inl NotFound | Some x \<Rightarrow> Inr x)"
  using assms by (auto simp: client_get_def Let_def split: if_splits option.splits)


lemma client_write_run:
  assumes "client_write flt v k ns name change w = (r, w')"
  shows "trace w' = trace w @ [Call v k ns name]"
    and "TokenRenewalTimers w' = TokenRenewalTimers w"
    and "flt (length (trace w)) \<Longrightarrow> r = Some (ClientError (length (trace w))) \<and> store w' = store w"
    and "\<not> flt (length (trace w)) \<Longrightarrow>
           (case change (store w) of
              Inl e \<Rightarrow> r = Some e \<and> store w' = store w
            | Inr c \<Rightarrow> r = None \<and> store w' = c)"
  using assms by (auto simp: client_write_def Let_def split: if_splits sum.splits)

lemma behaves_write:
  assumes "p (Call v k ns name)"
  shows "behaves flt q p (client_write flt v k ns name change)"
  unfolding behaves_def
proof (intro allI impI)
  fix w r w'
  assume a: "client_write flt v k ns name change w = (r, w')"
  note f = client_write_run [OF a]
  have "trace w' = trace w @ [Call v k ns name] \<and> list_all p [Call v k ns name]
      \<and> fails_fast flt q (length (trace w)) [Call v k ns name] r"
    using f(1) f(3) assms by simp
  then show "\<exists>new. trace w' = trace w @ new \<and> list_all p new
      \<and> fails_fast flt q (length (trace w)) new r" by blast
qed

lemma fails_fast_append:
  "fails_fast flt q n xs None \<Longrightarrow> fails_fast flt q (n + length xs) ys r
     \<Longrightarrow> fails_fast flt q n (xs @ ys) r"
  by (induction xs arbitrary: n) (auto split: if_splits)


lemma fails_fast_index:
  "fails_fast flt q n xs r \<Longrightarrow> i < length xs \<Longrightarrow> flt (n + i) \<Longrightarrow> q (xs ! i)
     \<Longrightarrow> r = Some (ClientError (n + i)) \<and> Suc i = length xs"
proof (induction xs arbitrary: n i)
  case Nil
  then show ?case by simp
next
  case (Cons e es)
  show ?case
  proof (cases i)
    case 0
    with Cons.prems show ?thesis by simp
  next
    case (Suc j)
    with Cons.prems have nf: "\<not> (flt n \<and> q e)" by (auto split: if_splits)
    with Cons.prems have ff: "fails_fast flt q (Suc n) es r" by simp
    from Cons.IH [OF ff, of j] Cons.prems Suc show ?thesis by simp
  qed
qed

lemma behaves_andThen:
  assumes "behaves flt q p f" "behaves flt q p g"
  shows "behaves flt q p (andThen f g)"
  unfolding behaves_def
proof (intro allI impI)
  fix w r w'
  assume a: "andThen f g w = (r, w')"
  obtain r1 w1 where f: "f w = (r1, w1)" by (cases "f w")
  from assms(1) f obtain n1 where
    t1: "trace w1 = trace w @ n1" and p1: "list_all p n1"
    and ff1: "fails_fast flt q (length (trace w)) n1 r1"
    unfolding behaves_def by blast
  show "\<exists>new. trace w' = trace w @ new \<and> list_all p new
      \<and> fails_fast flt q (length (trace w)) new r"
  proof (cases r1)
    case (Some e)
    with a f have "r = r1" "w' = w1" by (simp_all add: andThen_def)
    with t1 p1 ff1 show ?thesis by blast
  next
    case None
    with a f have g: "g w1 = (r, w')" by (simp add: andThen_def)
    from assms(2) g obtain n2 where
      t2: "trace w' = trace w1 @ n2" and p2: "list_all p n2"
      and ff2: "fails_fast flt q (length (trace w1)) n2 r"
      unfolding behaves_def by blast
    from ff1 None ff2 t1 have "fails_fast flt q (length (trace w)) (n1 @ n2) r"
      by (simp add: fails_fast_append)
    moreover from t1 t2 have "trace w' = trace w @ (n1 @ n2)" by simp
    moreover from p1 p2 have "list_all p (n1 @ n2)" by simp
    ultimately show ?thesis by blast
  qed
qed

lemma behaves_skip: "behaves flt q p skip"
  by (simp add: behaves_def skip_def)

lemma behaves_if:
  "behaves flt q p f \<Longrightarrow> behaves flt q p g \<Longrightarrow> behaves flt q p (if b then f else g)"
  by simp


text \<open>The shape shared by the reconcilers of one object: a read, then nothing, a create
  or an update.\<close>

lemma behaves_get_then:
  assumes p: "p (Call VGet k ns name)"
    and nf: "behaves flt q p on_missing"
    and fd: "\<And>x. behaves flt q p (on_found x)"
  shows "behaves flt q p (\<lambda>w. case client_get flt k ns name find_obj w of
            (Inl err, w1) \<Rightarrow> if \<not> IsNotFound err then (Some err, w1) else on_missing w1
          | (Inr x, w1) \<Rightarrow> on_found x w1)"
  unfolding behaves_def
proof (intro allI impI)
  fix w r w'
  assume a: "(case client_get flt k ns name find_obj w of
            (Inl err, w1) \<Rightarrow> if \<not> IsNotFound err then (Some err, w1) else on_missing w1
          | (Inr x, w1) \<Rightarrow> on_found x w1) = (r, w')"
  obtain r1 w1 where g: "client_get flt k ns name find_obj w = (r1, w1)"
    by (cases "client_get flt k ns name find_obj w")
  note f = client_get_run [OF g]
  let ?n = "length (trace w)"
  let ?ev = "Call VGet k ns name"
  show "\<exists>new. trace w' = trace w @ new \<and> list_all p new
      \<and> fails_fast flt q ?n new r"
  proof (cases "flt ?n")
    case True
    with f(4) have "r1 = Inl (ClientError ?n)" by simp
    with a g have "r = Some (ClientError ?n)" "w' = w1" by (simp_all add: IsNotFound_def)
    with f(1) p True have "trace w' = trace w @ [?ev] \<and> list_all p [?ev]
        \<and> fails_fast flt q ?n [?ev] r" by simp
    then show ?thesis by blast
  next
    case False
    have rest: "\<exists>new. trace w' = trace w1 @ new \<and> list_all p new
        \<and> fails_fast flt q (length (trace w1)) new r"
    proof (cases r1)
      case (Inl err)
      with f(5) [OF False] have "err = NotFound" by (auto split: option.splits)
      with a g Inl have "on_missing w1 = (r, w')" by (simp add: IsNotFound_def)
      with nf show ?thesis unfolding behaves_def by blast
    next
      case (Inr x)
      with a g have "on_found x w1 = (r, w')" by simp
      with fd show ?thesis unfolding behaves_def by blast
    qed
    then obtain new where n: "trace w' = trace w1 @ new" "list_all p new"
      "fails_fast flt q (length (trace w1)) new r" by blast
    from n f(1) False p have "trace w' = trace w @ (?ev # new) \<and> list_all p (?ev # new)
        \<and> fails_fast flt q ?n (?ev # new) r" by simp
    then show ?thesis by blast
  qed
qed

lemma behaves_reconcileClusterRole:
  assumes "\<And>v name. p (Call v KClusterRole '''' name)"
  shows "behaves flt q p (reconcileClusterRole flt cm componentName policyRules clusterArgoCD)"
proof -
  have "reconcileClusterRole flt cm componentName policyRules clusterArgoCD =
     (\<lambda>w. case client_get flt KClusterRole ''''
               (cr_name (newClusterRole cm componentName policyRules clusterArgoCD))
               (\<lambda>c. find (\<lambda>r. cr_name r =
                  cr_name (newClusterRole cm componentName policyRules clusterArgoCD)) (clusterRoles c)) w of
            (Inl err, w1) \<Rightarrow> if \<not> IsNotFound err then (Some err, w1)
               else createClusterRole flt (newClusterRole cm componentName policyRules clusterArgoCD) w1
          | (Inr x, w1) \<Rightarrow>
              (if \<not> clusterRoleNeedsUpdate x (newClusterRole cm componentName policyRules clusterArgoCD)
               then skip
               else updateClusterRole flt
                 (x\<lparr>cr_rules := cr_rules (newClusterRole cm componentName policyRules clusterArgoCD),
                    cr_labels := cr_labels (newClusterRole cm componentName policyRules clusterArgoCD),
                    cr_annotations := cr_annotations (newClusterRole cm componentName policyRules clusterArgoCD)\<rparr>)) w1)"
    by (rule ext) (simp add: reconcileClusterRole_def getClusterRole_def Let_def skip_def
        split: prod.splits sum.splits)
  moreover have "behaves flt q p \<dots>"
    by (rule behaves_get_then)
       (auto simp: assms createClusterRole_def updateClusterRole_def
          intro!: behaves_write behaves_skip)
  ultimately show ?thesis by simp
qed

lemma behaves_reconcileClusterRoleBinding:
  assumes "\<And>v name. p (Call v KClusterRoleBinding '''' name)"
  shows "behaves flt q p
           (reconcileClusterRoleBinding flt cm componentName targetNamespace clusterArgoCD)"
proof -
  define desired where "desired =
            \<lparr>crb_name = generateClusterRoleName componentName clusterArgoCD,
             crb_labels = getLabelsForClusterArgoCD cm clusterArgoCD,
             crb_annotations = getAnnotationsForClusterArgoCD clusterArgoCD,
             crb_roleRef = \<lparr>ref_apiGroup = ''rbac.authorization.k8s.io'',
                            ref_kind = ''ClusterRole'',
                            ref_name = generateClusterRoleName componentName clusterArgoCD\<rparr>,
             crb_subjects = [\<lparr>subj_kind = ''ServiceAccount'',
                              subj_name = getServiceAccountName componentName clusterArgoCD,
                              subj_namespace = targetNamespace\<rparr>]\<rparr>"
  have "reconcileClusterRoleBinding flt cm componentName targetNamespace clusterArgoCD =
     (\<lambda>w. case client_get flt KClusterRoleBinding ''''
               (generateClusterRoleName componentName clusterArgoCD)
               (\<lambda>c. find (\<lambda>r. crb_name r = generateClusterRoleName componentName clusterArgoCD)
                      (clusterRoleBindings c)) w of
            (Inl err, w1) \<Rightarrow> if \<not> IsNotFound err then (Some err, w1)
               else createClusterRoleBinding flt desired w1
          | (Inr x, w1) \<Rightarrow>
              (if \<not> clusterRoleBindingNeedsUpdate x desired then skip
               else updateClusterRoleBinding flt
                 (x\<lparr>crb_roleRef := crb_roleRef desired, crb_subjects := crb_subjects desired,
                    crb_labels := crb_labels desired,
                    crb_annotations := crb_annotations desired\<rparr>)) w1)"
    by (rule ext)
       (simp add: reconcileClusterRoleBinding_def getClusterRoleBinding_def Let_def skip_def
          desired_def split: prod.splits sum.splits)
  moreover have "behaves flt q p \<dots>"
    by (rule behaves_get_then)
       (auto simp: assms createClusterRoleBinding_def updateClusterRoleBinding_def
          intro!: behaves_write behaves_skip)
  ultimately show ?thesis by simp
qed

lemma behaves_reconcileServiceAccount:
  assumes "\<And>v ns name. p (Call v KServiceAccount ns name)"
  shows "behaves flt q p
           (reconcileServiceAccount flt cm componentName targetNamespace clusterArgoCD)"
proof -
  define desired where "desired =
            \<lparr>sa_name = getServiceAccountName componentName clusterArgoCD,
             sa_namespace = targetNamespace,
             sa_labels = getLabelsForClusterArgoCD cm clusterArgoCD,
             sa_annotations = getAnnotationsForClusterArgoCD clusterArgoCD\<rparr>"
  have "reconcileServiceAccount flt cm componentName targetNamespace clusterArgoCD =
     (\<lambda>w. case client_get flt KServiceAccount targetNamespace
               (getServiceAccountName componentName clusterArgoCD)
               (\<lambda>c. find (\<lambda>s. sa_key s =
                         (targetNamespace, getServiceAccountName componentName clusterArgoCD))
                      (serviceAccounts c)) w of
            (Inl err, w1) \<Rightarrow> if \<not> IsNotFound err then (Some err, w1)
               else createServiceAccount flt desired w1
          | (Inr x, w1) \<Rightarrow>
              (if \<not> serviceAccountNeedsUpdate x desired then skip
               else updateServiceAccount flt
                 (x\<lparr>sa_labels := sa_labels desired,
                    sa_annotations := sa_annotations desired\<rparr>)) w1)"
    by (rule ext)
       (simp add: reconcileServiceAccount_def getServiceAccount_def Let_def skip_def
          desired_def split: prod.splits sum.splits)
  moreover have "behaves flt q p \<dots>"
    by (rule behaves_get_then)
       (auto simp: assms createServiceAccount_def updateServiceAccount_def
          intro!: behaves_write behaves_skip)
  ultimately show ?thesis by simp
qed

text \<open>The events of the child-resource phase.\<close>

lemma behaves_resource_phases:
  "behaves flt (\<lambda>e. True) is_call (resource_phases flt cm clusterArgoCD)"
  unfolding resource_phases_def reconcileClusterRoles_def reconcileClusterRoleBindings_def
    reconcileServiceAccounts_def reconcileTargetNamespaceResources_def reconcileServices_def
    reconcileDeployments_def reconcileStatefulSets_def Let_def
  by (intro behaves_andThen behaves_if behaves_skip behaves_reconcileClusterRole
        behaves_reconcileClusterRoleBinding behaves_reconcileServiceAccount) simp_all

text \<open>
  C7 (as stated) fails. When the read of the first ClusterRole fails, the pass returns
  that error at once: the only client call made is this read, so no other child resource
  is reconciled, and the outcome is this one error.
\<close>

theorem reconcileResources_aborts_counterexample:
  "fst (reconcileResources (fault_at 0) example_common (instance_with_apps ''a'' [])
          (Status (instance_with_apps ''a'' [])) (world_of (store fresh_apps)))
     = Some (ClientError 0)
   \<and> trace (state_after (reconcileResources (fault_at 0) example_common
        (instance_with_apps ''a'' []) (Status (instance_with_apps ''a'' []))
        (world_of (store fresh_apps))))
     = [Call VGet KClusterRole '''' ''a-argocd-application-controller'']"
  by code_simp

text \<open>
  C7 (amended). In the child-resource phase of a reconcile pass, a client call that fails
  with an error other than NotFound, a read in particular, ends the whole phase: it is the
  last call of the phase, no child resource after it is reconciled, and the phase returns
  the error of that one call. Here \<open>i\<close> is the position of a call of this phase in the
  trace, and \<open>flt i\<close> says that the call fails.
\<close>

theorem reconcileResources_fails_fast:
  assumes "reconcileResources flt cm clusterArgoCD status w = (err, status', w')"
    and "length (trace w) \<le> i" and "i < length (trace w')" and "flt i"
  shows "err = Some (ClientError i) \<and> length (trace w') = Suc i \<and> status' = status
       \<and> take (length (trace w)) (trace w') = trace w"
proof -
  obtain r w1 where ph: "resource_phases flt cm clusterArgoCD w = (r, w1)"
    by (cases "resource_phases flt cm clusterArgoCD w")
  with assms(1) have e: "err = r" and w: "w' = w1"
    and s: "r \<noteq> None \<longrightarrow> status' = status"
    by (auto simp: reconcileResources_def split: option.splits)
  from behaves_resource_phases [of flt cm clusterArgoCD] ph obtain new where
    n: "trace w1 = trace w @ new" "fails_fast flt (\<lambda>e. True) (length (trace w)) new r"
    unfolding behaves_def by blast
  from assms(2,3) n(1) w have "i - length (trace w) < length new" by simp
  from fails_fast_index [OF n(2) this] assms(2,4)
  have "r = Some (ClientError i)" and "Suc (i - length (trace w)) = length new" by simp_all
  with e w s n(1) assms(2) show ?thesis by simp
qed

theorem reconcileResources_fails_fast_witness:
  "reconcileResources (fault_at 2) example_common (instance_with_apps ''a'' [])
       (Status (instance_with_apps ''a'' [])) (world_of (store fresh_apps))
     = (fst (reconcileResources (fault_at 2) example_common (instance_with_apps ''a'' [])
          (Status (instance_with_apps ''a'' [])) (world_of (store fresh_apps))),
        fst (snd (reconcileResources (fault_at 2) example_common (instance_with_apps ''a'' [])
          (Status (instance_with_apps ''a'' [])) (world_of (store fresh_apps)))),
        state_after (reconcileResources (fault_at 2) example_common (instance_with_apps ''a'' [])
          (Status (instance_with_apps ''a'' [])) (world_of (store fresh_apps))))
   \<and> length (trace (world_of (store fresh_apps))) \<le> 2
   \<and> 2 < length (trace (state_after (reconcileResources (fault_at 2) example_common
          (instance_with_apps ''a'' []) (Status (instance_with_apps ''a'' []))
          (world_of (store fresh_apps)))))
   \<and> fault_at 2 2
   \<and> fst (reconcileResources (fault_at 2) example_common (instance_with_apps ''a'' [])
          (Status (instance_with_apps ''a'' [])) (world_of (store fresh_apps)))
       = Some (ClientError 2)
   \<and> length (trace (state_after (reconcileResources (fault_at 2) example_common
          (instance_with_apps ''a'' []) (Status (instance_with_apps ''a'' []))
          (world_of (store fresh_apps))))) = 3"
proof -
  let ?r = "reconcileResources (fault_at 2) example_common (instance_with_apps ''a'' [])
       (Status (instance_with_apps ''a'' [])) (world_of (store fresh_apps))"
  have a: "?r = (fst ?r, fst (snd ?r), state_after ?r)" by (simp add: state_after_def)
  have b: "length (trace (world_of (store fresh_apps))) \<le> 2" by (simp add: world_of_def)
  have c: "2 < length (trace (state_after ?r))" by code_simp
  have d: "fault_at 2 2" by (simp add: fault_at_def)
  from reconcileResources_fails_fast [OF a b c d] a b c d show ?thesis by simp
qed

subsection \<open>Runs on the example states\<close>

text \<open>
  C1. The claim says that a namespace carrying the apps label of another instance is
  skipped. The code has no such test: reconciling instance \<^verbatim>\<open>b\<close>, which lists \<^verbatim>\<open>ns1\<close>
  among its application source namespaces, overwrites the label that instance \<^verbatim>\<open>a\<close>
  had put on \<^verbatim>\<open>ns1\<close> and creates \<^verbatim>\<open>b\<close>'s Role there.
\<close>

theorem apps_claim_taken_over:
  "fst (internalReconcile no_fault example_common any_labels ''b'' claimed_by_a) = None
   \<and> namespaces (store (state_after
        (internalReconcile no_fault example_common any_labels ''b'' claimed_by_a)))
     = [\<lparr>ns_name = ''ns1'',
         ns_labels = [(''argocd.argoproj.io/managed-by-cluster-argocd'', ''b'')]\<rparr>]
   \<and> map role_key (roles (store (state_after
        (internalReconcile no_fault example_common any_labels ''b'' claimed_by_a))))
     = [(''ns1'', ''b-ns1-argocd-server'')]"
  by code_simp

text \<open>
  C2. The claim says that a namespace is labeled for ApplicationSets only when the same
  instance holds the apps label on it. The code labels it without looking: instance
  \<^verbatim>\<open>a\<close> lists \<^verbatim>\<open>ns1\<close> for ApplicationSets only, and after the pass \<^verbatim>\<open>ns1\<close> carries the
  app-set label of \<^verbatim>\<open>a\<close> and no apps label.
\<close>

theorem appset_claim_without_apps_claim:
  "fst (internalReconcile no_fault example_common any_labels ''a'' appset_only) = None
   \<and> namespaces (store (state_after
        (internalReconcile no_fault example_common any_labels ''a'' appset_only)))
     = [\<lparr>ns_name = ''ns1'',
         ns_labels = [(''argocd.argoproj.io/applicationset-managed-by-cluster-argocd'', ''a'')]\<rparr>]"
  by code_simp

text \<open>
  C4. The claim says that after the deletion cascade the source namespaces carry no
  managed-by label of the instance and none of its Roles. The cascade succeeds and removes
  the finalizer, but it only removes the apps label: the Role that the instance created in
  \<^verbatim>\<open>ns1\<close> and the app-set label are still there.
\<close>

theorem cascade_leaves_role_and_label:
  "fst (internalReconcile no_fault example_common any_labels ''a'' deleting_a) = None
   \<and> map Finalizers (clusterArgoCDs (store (state_after
        (internalReconcile no_fault example_common any_labels ''a'' deleting_a)))) = [[]]
   \<and> roles (store (state_after
        (internalReconcile no_fault example_common any_labels ''a'' deleting_a)))
     = [a_server_role]
   \<and> namespaces (store (state_after
        (internalReconcile no_fault example_common any_labels ''a'' deleting_a)))
     = [\<lparr>ns_name = ''ns1'',
         ns_labels = [(''argocd.argoproj.io/applicationset-managed-by-cluster-argocd'', ''a'')]\<rparr>]"
  by code_simp

text \<open>
  C6. The claim says that a second pass right after a successful one writes nothing. Both
  passes below succeed, and the second one still issues a write: the Role in the source
  namespace, which exists by then, is updated unconditionally.
\<close>

theorem second_pass_updates_role:
  "fst first_pass = None \<and> fst second_pass = None
   \<and> filter is_write (drop (length (trace (state_after first_pass)))
        (trace (state_after second_pass)))
     = [Call VUpdate KRole ''ns1'' ''a-ns1-argocd-server'']"
  by code_simp

subsection \<open>The deletion cascade\<close>















subsection \<open>Failures during the cascade, and running it again\<close>



















end
